theory Spec2Isabelle
  imports Complex_Main
begin

section \<open>Numbers of the JavaScript runtime\<close>

text \<open>
  The validator and the scoring block compute on JavaScript numbers, that is on IEEE 754
  doubles. A finite double is kept as the rational it denotes; \<open>NaN\<close> and the two
  infinities are values of their own. Negative zero is identified with zero: no
  comparison of the source (\<open><\<close>, \<open>>\<close>, \<open>!==\<close>, \<open>isNaN\<close>,
  \<open>Number.isInteger\<close>) tells them apart.
\<close>

datatype jsnum = NaN | PInf | NInf | Fin rat

text \<open>The binary exponent \<open>\<lfloor>log\<^sub>2 x\<rfloor>\<close> of a positive rational, by halving and doubling.\<close>

function log2_up :: "rat \<Rightarrow> int" where
  "log2_up x = (if 2 \<le> x then log2_up (x / 2) + 1 else 0)"
  by pat_completeness auto
termination
proof (relation "measure (\<lambda>x. nat \<lfloor>x\<rfloor>)")
  show "wf (measure (\<lambda>x::rat. nat \<lfloor>x\<rfloor>))" by simp
next
  fix x :: rat
  assume "2 \<le> x"
  then have "\<lfloor>x / 2\<rfloor> < \<lfloor>x\<rfloor>" and "0 < \<lfloor>x\<rfloor>" by linarith+
  then show "(x / 2, x) \<in> measure (\<lambda>x. nat \<lfloor>x\<rfloor>)"
    by (simp only: in_measure zless_nat_conj)
qed
declare log2_up.simps [simp del]

function log2_down :: "rat \<Rightarrow> int" where
  "log2_down x = (if 0 < x \<and> x < 1 then log2_down (2 * x) - 1 else 0)"
  by pat_completeness auto
termination
proof (relation "measure (\<lambda>x. nat \<lfloor>1 / x\<rfloor>)")
  show "wf (measure (\<lambda>x::rat. nat \<lfloor>1 / x\<rfloor>))" by simp
next
  fix x :: rat
  assume "0 < x \<and> x < 1"
  define y where "y = 1 / x"
  from \<open>0 < x \<and> x < 1\<close> have y: "1 < y" by (simp add: y_def)
  have half: "\<lfloor>y / 2\<rfloor> < \<lfloor>y\<rfloor>"
  proof (cases "2 \<le> y")
    case True
    then show ?thesis by linarith
  next
    case False
    with y have "\<lfloor>y / 2\<rfloor> = 0" and "\<lfloor>y\<rfloor> = 1"
      by (simp_all add: floor_eq_iff)
    then show ?thesis by simp
  qed
  have "1 / (2 * x) = y / 2" by (simp add: y_def)
  with half have lt: "\<lfloor>1 / (2 * x)\<rfloor> < \<lfloor>y\<rfloor>"
    by (simp only:)
  from y have pos: "0 < \<lfloor>y\<rfloor>" by linarith
  from lt pos show "(2 * x, x) \<in> measure (\<lambda>x. nat \<lfloor>1 / x\<rfloor>)"
    unfolding y_def by (simp only: in_measure zless_nat_conj)
qed
declare log2_down.simps [simp del]

definition ilog2 :: "rat \<Rightarrow> int" where
  "ilog2 x = (if 1 \<le> x then log2_up x else log2_down x)"

definition pow2 :: "int \<Rightarrow> rat" where
  "pow2 e = (if 0 \<le> e then 2 ^ nat e else 1 / 2 ^ nat (- e))"

definition round_half_even :: "rat \<Rightarrow> int" where
  "round_half_even x =
     (let f = \<lfloor>x\<rfloor>; d = x - of_int f
      in if d < 1 / 2 then f else if 1 / 2 < d then f + 1
         else if even f then f else f + 1)"

text \<open>
  \<open>toDouble\<close> rounds a rational to the nearest double (binary64: 53 significant bits,
  ties to even, least exponent \<open>-1022\<close> with gradual underflow, overflow to an
  infinity). Every arithmetic operation of the runtime is the exact operation followed by
  this rounding.
\<close>

definition toDouble :: "rat \<Rightarrow> jsnum" where
  "toDouble x =
     (if x = 0 then Fin 0
      else let a = \<bar>x\<bar>;
               e = max (ilog2 a) (- 1022);
               q = pow2 (e - 52);
               y = of_int (round_half_even (a / q)) * q
           in if pow2 1024 \<le> y then (if x < 0 then NInf else PInf)
              else Fin (if x < 0 then - y else y))"

definition isNaN :: "jsnum \<Rightarrow> bool" where
  "isNaN x = (x = NaN)"

fun Number_isInteger :: "jsnum \<Rightarrow> bool" where
  "Number_isInteger (Fin r) = (of_int \<lfloor>r\<rfloor> = r)"
| "Number_isInteger x = False"

text \<open>\<open>Math.round\<close>: the nearest integer, a tie going up.\<close>

fun Math_round :: "jsnum \<Rightarrow> jsnum" where
  "Math_round (Fin r) = Fin (of_int \<lfloor>r + 1 / 2\<rfloor>)"
| "Math_round x = x"

fun js_less :: "jsnum \<Rightarrow> jsnum \<Rightarrow> bool" where
  "js_less NaN y = False"
| "js_less x NaN = False"
| "js_less (Fin a) (Fin b) = (a < b)"
| "js_less NInf y = (y \<noteq> NInf)"
| "js_less x PInf = (x \<noteq> PInf)"
| "js_less x y = False"

fun js_neg :: "jsnum \<Rightarrow> jsnum" where
  "js_neg NaN = NaN"
| "js_neg PInf = NInf"
| "js_neg NInf = PInf"
| "js_neg (Fin a) = Fin (- a)"

fun js_add :: "jsnum \<Rightarrow> jsnum \<Rightarrow> jsnum" where
  "js_add NaN y = NaN"
| "js_add x NaN = NaN"
| "js_add (Fin a) (Fin b) = toDouble (a + b)"
| "js_add PInf y = (if y = NInf then NaN else PInf)"
| "js_add NInf y = (if y = PInf then NaN else NInf)"
| "js_add x y = y"

fun js_mul :: "jsnum \<Rightarrow> jsnum \<Rightarrow> jsnum" where
  "js_mul NaN y = NaN"
| "js_mul x NaN = NaN"
| "js_mul (Fin a) (Fin b) = toDouble (a * b)"
| "js_mul x y =
     (if x = Fin 0 \<or> y = Fin 0 then NaN
      else if js_less x (Fin 0) = js_less y (Fin 0) then PInf else NInf)"

definition Math_min :: "jsnum \<Rightarrow> jsnum \<Rightarrow> jsnum" where
  "Math_min x y = (if isNaN x \<or> isNaN y then NaN else if js_less y x then y else x)"

section \<open>Strings and JSON values\<close>

text \<open>
  A string is a list of characters, one \<open>char\<close> for one code unit of the JavaScript
  string; \<open>length\<close> is its \<open>.length\<close>. The type \<open>char\<close> has the code units
  \<open>0\<close> to \<open>255\<close>.
\<close>

definition code_unit :: "char \<Rightarrow> int" where
  "code_unit c = of_char c"

text \<open>White space and line terminators: what \<open>trim\<close>, the regular expression class
  \<open>\s\<close> and the numeric string grammar skip.\<close>

definition is_white_space :: "char \<Rightarrow> bool" where
  "is_white_space c = (code_unit c \<in> {9, 10, 11, 12, 13, 32, 160})"

definition trim :: "string \<Rightarrow> string" where
  "trim s = rev (dropWhile is_white_space (rev (dropWhile is_white_space s)))"

definition digit_value :: "char \<Rightarrow> int option" where
  "digit_value c =
     (let n = code_unit c
      in if 48 \<le> n \<and> n \<le> 57 then Some (n - 48)
         else if 97 \<le> n \<and> n \<le> 102 then Some (n - 87)
         else if 65 \<le> n \<and> n \<le> 70 then Some (n - 55)
         else None)"

definition is_digit :: "int \<Rightarrow> char \<Rightarrow> bool" where
  "is_digit base c = (case digit_value c of None \<Rightarrow> False | Some d \<Rightarrow> d < base)"

definition digits_value :: "int \<Rightarrow> string \<Rightarrow> int" where
  "digits_value base ds = foldl (\<lambda>a c. a * base + (case digit_value c of None \<Rightarrow> 0 | Some d \<Rightarrow> d)) 0 ds"

definition pow10 :: "int \<Rightarrow> rat" where
  "pow10 e = (if 0 \<le> e then 10 ^ nat e else 1 / 10 ^ nat (- e))"

definition starts_with :: "char \<Rightarrow> string \<Rightarrow> bool" where
  "starts_with c s = (case s of [] \<Rightarrow> False | d # r \<Rightarrow> d = c)"

text \<open>The exponent part \<open>[eE][+-]?[0-9]+\<close> of a numeric string, which must be the whole of
  \<open>r\<close>; no exponent part is the exponent \<open>0\<close>.\<close>

definition exponent_part :: "string \<Rightarrow> int option" where
  "exponent_part r =
     (case r of
        [] \<Rightarrow> Some 0
      | c # t \<Rightarrow>
          if c = CHR ''e'' \<or> c = CHR ''E'' then
            (let ds = (if starts_with CHR ''-'' t \<or> starts_with CHR ''+'' t then tl t else t)
             in if ds \<noteq> [] \<and> list_all (is_digit 10) ds
                then Some ((if starts_with CHR ''-'' t then - 1 else 1) * digits_value 10 ds)
                else None)
          else None)"

text \<open>An unsigned decimal literal of the numeric string grammar: digits, an optional
  fraction and an optional exponent, with a digit before or after the point.\<close>

definition decimal_value :: "string \<Rightarrow> rat option" where
  "decimal_value s =
     (let ip = takeWhile (is_digit 10) s;
          r1 = dropWhile (is_digit 10) s;
          fp = (if starts_with CHR ''.'' r1 then takeWhile (is_digit 10) (tl r1) else []);
          r2 = (if starts_with CHR ''.'' r1 then dropWhile (is_digit 10) (tl r1) else r1)
      in if ip = [] \<and> fp = [] then None
         else case exponent_part r2 of
                None \<Rightarrow> None
              | Some e \<Rightarrow>
                  Some ((of_int (digits_value 10 ip)
                         + of_int (digits_value 10 fp) / 10 ^ length fp) * pow10 e))"

definition unsigned_decimal :: "string \<Rightarrow> jsnum" where
  "unsigned_decimal s =
     (if s = ''Infinity'' then PInf
      else case decimal_value s of None \<Rightarrow> NaN | Some q \<Rightarrow> toDouble q)"

text \<open>The literals \<open>0x\<close>, \<open>0o\<close> and \<open>0b\<close>; they take no sign.\<close>

definition nondecimal_value :: "string \<Rightarrow> int option" where
  "nondecimal_value s =
     (case s of
        z # p # ds \<Rightarrow>
          (let base = (if p = CHR ''x'' \<or> p = CHR ''X'' then 16
                       else if p = CHR ''o'' \<or> p = CHR ''O'' then 8
                       else if p = CHR ''b'' \<or> p = CHR ''B'' then 2 else 0)
           in if z = CHR ''0'' \<and> ds \<noteq> [] \<and> list_all (is_digit base) ds
              then Some (digits_value base ds) else None)
      | _ \<Rightarrow> None)"

text \<open>\<open>StringToNumber\<close>: what \<open>Number(s)\<close> is on a string.\<close>

definition StringToNumber :: "string \<Rightarrow> jsnum" where
  "StringToNumber s =
     (let t = trim s
      in if t = [] then Fin 0
         else case nondecimal_value t of
                Some n \<Rightarrow> toDouble (of_int n)
              | None \<Rightarrow>
                  if starts_with CHR ''-'' t then js_neg (unsigned_decimal (tl t))
                  else if starts_with CHR ''+'' t then unsigned_decimal (tl t)
                  else unsigned_decimal t)"

text \<open>
  A parsed JSON value. An object is the list of its members in the order of the text;
  a later member of the same name overrides an earlier one. A value of the source typed
  \<open>unknown\<close> is a \<open>json option\<close>, \<open>None\<close> being \<open>undefined\<close>.
\<close>

datatype json =
    JNull
  | JBool bool
  | JNum jsnum
  | JStr string
  | JArr "json list"
  | JObj "(string \<times> json) list"

text \<open>Reading a property that no prototype defines (the seven field names of an
  evaluation): the own property of an object, \<open>undefined\<close> on any other value. The value
  read is never \<open>null\<close> or \<open>undefined\<close> itself where this is used.\<close>

definition get_property :: "json \<Rightarrow> string \<Rightarrow> json option" where
  "get_property d k = (case d of JObj kvs \<Rightarrow> map_of (rev kvs) k | _ \<Rightarrow> None)"

definition truthy :: "json \<Rightarrow> bool" where
  "truthy d =
     (case d of
        JNull \<Rightarrow> False
      | JBool b \<Rightarrow> b
      | JNum n \<Rightarrow> n \<noteq> NaN \<and> n \<noteq> Fin 0
      | JStr s \<Rightarrow> s \<noteq> []
      | _ \<Rightarrow> True)"

text \<open>
  What the program cannot fix of its runtime: how a number prints (\<open>Number::toString\<close>)
  and the message of the \<open>TypeError\<close> a failed conversion throws.
\<close>

record runtime =
  Number_toString :: "jsnum \<Rightarrow> string"
  TypeError_message :: string

datatype exn = TypeError

definition join_with :: "string \<Rightarrow> string list \<Rightarrow> string" where
  "join_with sep ss = (case ss of [] \<Rightarrow> [] | s # r \<Rightarrow> foldl (\<lambda>a t. a @ sep @ t) s r)"

text \<open>
  \<open>ToString\<close> and \<open>ToNumber\<close> on a parsed value. No member of a parsed object is
  callable, so an object with a member named \<open>toString\<close> has no conversion to a
  primitive and both throw a \<open>TypeError\<close>; any other object prints as
  \<open>[object Object]\<close>. An array prints its elements joined by commas, \<open>null\<close> as the
  empty string.
\<close>

fun ToString :: "runtime \<Rightarrow> json \<Rightarrow> exn + string"
  and join_elements :: "runtime \<Rightarrow> json list \<Rightarrow> exn + string list" where
  "ToString rt JNull = Inr ''null''"
| "ToString rt (JBool b) = Inr (if b then ''true'' else ''false'')"
| "ToString rt (JNum n) = Inr (Number_toString rt n)"
| "ToString rt (JStr s) = Inr s"
| "ToString rt (JArr vs) =
     (case join_elements rt vs of Inl e \<Rightarrow> Inl e | Inr ss \<Rightarrow> Inr (join_with '','' ss))"
| "ToString rt (JObj kvs) =
     (if map_of kvs ''toString'' \<noteq> None then Inl TypeError else Inr ''[object Object]'')"
| "join_elements rt [] = Inr []"
| "join_elements rt (v # vs) =
     (case (if v = JNull then Inr [] else ToString rt v) of
        Inl e \<Rightarrow> Inl e
      | Inr s \<Rightarrow> (case join_elements rt vs of Inl e \<Rightarrow> Inl e | Inr ss \<Rightarrow> Inr (s # ss)))"

definition ToNumber :: "runtime \<Rightarrow> json \<Rightarrow> exn + jsnum" where
  "ToNumber rt v =
     (case v of
        JNull \<Rightarrow> Inr (Fin 0)
      | JBool b \<Rightarrow> Inr (Fin (if b then 1 else 0))
      | JNum n \<Rightarrow> Inr n
      | JStr s \<Rightarrow> Inr (StringToNumber s)
      | _ \<Rightarrow> (case ToString rt v of Inl e \<Rightarrow> Inl e | Inr s \<Rightarrow> Inr (StringToNumber s)))"

text \<open>\<open>Number(value)\<close> and \<open>String(value)\<close> on a value that may be \<open>undefined\<close>.\<close>

definition Number_of :: "runtime \<Rightarrow> json option \<Rightarrow> exn + jsnum" where
  "Number_of rt value = (case value of None \<Rightarrow> Inr NaN | Some v \<Rightarrow> ToNumber rt v)"

definition String_of :: "runtime \<Rightarrow> json option \<Rightarrow> exn + string" where
  "String_of rt value = (case value of None \<Rightarrow> Inr ''undefined'' | Some v \<Rightarrow> ToString rt v)"

section \<open>\<open>JSON.parse\<close>\<close>

definition is_json_ws :: "char \<Rightarrow> bool" where
  "is_json_ws c = (code_unit c \<in> {9, 10, 13, 32})"

definition skip_ws :: "string \<Rightarrow> string" where
  "skip_ws s = dropWhile is_json_ws s"

definition unescape :: "char \<Rightarrow> char option" where
  "unescape e =
     (if e = CHR 0x22 then Some (CHR 0x22)
      else if e = CHR 0x5C then Some (CHR 0x5C)
      else if e = CHR ''/'' then Some (CHR ''/'')
      else if e = CHR ''b'' then Some (CHR 0x08)
      else if e = CHR ''f'' then Some (CHR 0x0C)
      else if e = CHR ''n'' then Some (CHR 0x0A)
      else if e = CHR ''r'' then Some (CHR 0x0D)
      else if e = CHR ''t'' then Some (CHR 0x09)
      else None)"

text \<open>
  The characters of a string literal after its opening quote, up to the closing quote:
  the decoded string and the rest of the text. A \<open>\u\<close> escape gives the code unit
  it names, cut to the 256 code units of \<open>char\<close>.
\<close>

function json_string :: "string \<Rightarrow> (string \<times> string) option" where
  "json_string [] = None"
| "json_string (c # cs) =
     (if c = CHR 0x22 then Some ([], cs)
      else if c = CHR 0x5C then
        (case cs of
           [] \<Rightarrow> None
         | e # es \<Rightarrow>
             if e = CHR ''u'' then
               (if 4 \<le> length es \<and> list_all (is_digit 16) (take 4 es) then
                  (case json_string (drop 4 es) of
                     None \<Rightarrow> None
                   | Some (t, r) \<Rightarrow> Some (char_of (digits_value 16 (take 4 es)) # t, r))
                else None)
             else
               (case unescape e of
                  None \<Rightarrow> None
                | Some d \<Rightarrow>
                    (case json_string es of None \<Rightarrow> None | Some (t, r) \<Rightarrow> Some (d # t, r))))
      else if code_unit c < 32 then None
      else (case json_string cs of None \<Rightarrow> None | Some (t, r) \<Rightarrow> Some (c # t, r)))"
  by pat_completeness auto
termination
  by (relation "measure length") auto

text \<open>A number of the JSON grammar at the head of the text: its exact value and the rest.\<close>

definition json_number :: "string \<Rightarrow> (rat \<times> string) option" where
  "json_number s =
     (let s1 = (if starts_with CHR ''-'' s then tl s else s);
          ip = (if starts_with CHR ''0'' s1 then ''0'' else takeWhile (is_digit 10) s1);
          r1 = drop (length ip) s1;
          fp = (if starts_with CHR ''.'' r1 then takeWhile (is_digit 10) (tl r1) else []);
          r2 = (if starts_with CHR ''.'' r1 then dropWhile (is_digit 10) (tl r1) else r1);
          has_exp = (starts_with CHR ''e'' r2 \<or> starts_with CHR ''E'' r2);
          t = tl r2;
          t1 = (if starts_with CHR ''-'' t \<or> starts_with CHR ''+'' t then tl t else t);
          ed = takeWhile (is_digit 10) t1
      in if ip = [] \<or> (starts_with CHR ''.'' r1 \<and> fp = []) \<or> (has_exp \<and> ed = []) then None
         else Some
           ((if starts_with CHR ''-'' s then - 1 else 1)
              * (of_int (digits_value 10 ip) + of_int (digits_value 10 fp) / 10 ^ length fp)
              * (if has_exp
                 then pow10 ((if starts_with CHR ''-'' t then - 1 else 1) * digits_value 10 ed)
                 else 1),
            if has_exp then dropWhile (is_digit 10) t1 else r2))"

lemma skip_ws_length: "length (skip_ws s) \<le> length s"
  by (simp add: skip_ws_def length_dropWhile_le)

lemma skip_ws_Cons_length: "skip_ws s = c # r \<Longrightarrow> length r < length s"
  using skip_ws_length [of s] by simp

lemma json_string_length: "json_string s = Some (t, r) \<Longrightarrow> length r < length s"
proof (induction s arbitrary: t rule: json_string.induct)
  case 1
  then show ?case by simp
next
  case (2 c cs)
  then show ?case
    by (fastforce split: if_splits list.splits option.splits)
qed

text \<open>
  The value grammar, by recursive descent. After a value has been read, the descent goes
  on in the rest of the text only if that rest is shorter than the text the value was read
  from, which any value read makes it.
\<close>

function parse_value :: "string \<Rightarrow> (json \<times> string) option"
  and parse_elements :: "string \<Rightarrow> json list \<Rightarrow> (json \<times> string) option"
  and parse_members :: "string \<Rightarrow> (string \<times> json) list \<Rightarrow> (json \<times> string) option"
where
  "parse_value s =
     (case skip_ws s of
        [] \<Rightarrow> None
      | c # cs \<Rightarrow>
          if c = CHR ''{'' then
            (if starts_with CHR ''}'' (skip_ws cs) then Some (JObj [], tl (skip_ws cs))
             else parse_members cs [])
          else if c = CHR ''['' then
            (if starts_with CHR '']'' (skip_ws cs) then Some (JArr [], tl (skip_ws cs))
             else parse_elements cs [])
          else if c = CHR 0x22 then
            (case json_string cs of None \<Rightarrow> None | Some (t, r) \<Rightarrow> Some (JStr t, r))
          else if take 4 (c # cs) = ''true'' then Some (JBool True, drop 4 (c # cs))
          else if take 5 (c # cs) = ''false'' then Some (JBool False, drop 5 (c # cs))
          else if take 4 (c # cs) = ''null'' then Some (JNull, drop 4 (c # cs))
          else (case json_number (c # cs) of
                  None \<Rightarrow> None
                | Some (q, r) \<Rightarrow> Some (JNum (toDouble q), r)))"
| "parse_elements s acc =
     (case parse_value s of
        None \<Rightarrow> None
      | Some (v, r) \<Rightarrow>
          if length r < length s then
            (case skip_ws r of
               [] \<Rightarrow> None
             | c # r' \<Rightarrow>
                 if c = CHR '','' then parse_elements r' (acc @ [v])
                 else if c = CHR '']'' then Some (JArr (acc @ [v]), r')
                 else None)
          else None)"
| "parse_members s acc =
     (case skip_ws s of
        [] \<Rightarrow> None
      | q # s1 \<Rightarrow>
          if q \<noteq> CHR 0x22 then None
          else
            (case json_string s1 of
               None \<Rightarrow> None
             | Some (k, s2) \<Rightarrow>
                 (case skip_ws s2 of
                    [] \<Rightarrow> None
                  | col # s3 \<Rightarrow>
                      if col \<noteq> CHR '':'' then None
                      else
                        (case parse_value s3 of
                           None \<Rightarrow> None
                         | Some (v, r) \<Rightarrow>
                             if length r < length s3 then
                               (case skip_ws r of
                                  [] \<Rightarrow> None
                                | c # r' \<Rightarrow>
                                    if c = CHR '','' then parse_members r' (acc @ [(k, v)])
                                    else if c = CHR ''}'' then Some (JObj (acc @ [(k, v)]), r')
                                    else None)
                             else None))))"
  by pat_completeness auto
termination
proof (relation "measure (\<lambda>x. case x of
          Inl s \<Rightarrow> 2 * length s
        | Inr (Inl (s, acc)) \<Rightarrow> 2 * length s + 1
        | Inr (Inr (s, acc)) \<Rightarrow> 2 * length s + 1)")
qed (auto dest!: skip_ws_Cons_length json_string_length)
declare parse_value.simps [simp del] parse_elements.simps [simp del] parse_members.simps [simp del]

text \<open>\<open>JSON.parse\<close>: one value between optional white space; \<open>None\<close> is the
  \<open>SyntaxError\<close> it throws.\<close>

definition JSON_parse :: "string \<Rightarrow> json option" where
  "JSON_parse s =
     (case parse_value s of
        None \<Rightarrow> None
      | Some (v, r) \<Rightarrow> if skip_ws r = [] then Some v else None)"

section \<open>The response recoverer\<close>

text \<open>
  The three regular expressions of \<open>parseEvaluationResponse\<close> as functions on the
  text. \<open>split_on pat s\<close> is the text before and after the first \<open>pat\<close> in \<open>s\<close>.
\<close>

fun split_on :: "string \<Rightarrow> string \<Rightarrow> (string \<times> string) option" where
  "split_on pat [] = (if pat = [] then Some ([], []) else None)"
| "split_on pat (c # cs) =
     (if take (length pat) (c # cs) = pat then Some ([], drop (length pat) (c # cs))
      else (case split_on pat cs of None \<Rightarrow> None | Some (b, a) \<Rightarrow> Some (c # b, a)))"

definition fence :: string where
  "fence = [CHR 0x60, CHR 0x60, CHR 0x60]"

text \<open>
  The capture of \<open>/```(?:json)?\s*([\s\S]*?)```/\<close>: after the first fence, an optional
  \<open>json\<close> and white space, the text up to the next fence. Neither \<open>json\<close> nor white
  space holds a backquote, so giving either back finds no fence the greedy reading
  misses, and a match starting at a later fence is one starting at the first.
\<close>

definition match_code_block :: "string \<Rightarrow> string option" where
  "match_code_block s =
     (case split_on fence s of
        None \<Rightarrow> None
      | Some (before, a) \<Rightarrow>
          (case split_on fence
                  (dropWhile is_white_space (if take 4 a = ''json'' then drop 4 a else a)) of
             None \<Rightarrow> None
           | Some (body, rest) \<Rightarrow> Some body))"

text \<open>The match of \<open>/\{[\s\S]*\}/\<close>: from the first opening brace to the last closing
  brace after it.\<close>

definition match_object :: "string \<Rightarrow> string option" where
  "match_object s =
     (let t = dropWhile (\<lambda>c. c \<noteq> CHR ''{'') s;
          u = rev (dropWhile (\<lambda>c. c \<noteq> CHR ''}'') (rev t))
      in if u = [] then None else Some u)"

text \<open>\<open>.replace(/,\s*}/g, '}')\<close> and \<open>.replace(/,\s*]/g, ']')\<close>, the closing
  character being \<open>cl\<close>.\<close>

lemma length_tl_dropWhile: "length (dropWhile P cs) - Suc 0 < Suc (length cs)"
  using length_dropWhile_le [of P cs] by simp

function remove_trailing_commas :: "char \<Rightarrow> string \<Rightarrow> string" where
  "remove_trailing_commas cl [] = []"
| "remove_trailing_commas cl (c # cs) =
     (if c = CHR '','' \<and> starts_with cl (dropWhile is_white_space cs)
      then cl # remove_trailing_commas cl (tl (dropWhile is_white_space cs))
      else c # remove_trailing_commas cl cs)"
  by pat_completeness auto
termination
  by (relation "measure (\<lambda>(cl, s). length s)") (simp_all add: length_tl_dropWhile)

definition sanitize :: "string \<Rightarrow> string" where
  "sanitize rawResponse =
     trim
       (map (\<lambda>c. if c = CHR 0x27 then CHR 0x22 else c)
          (remove_trailing_commas (CHR '']'')
             (remove_trailing_commas (CHR ''}'')
                (filter (\<lambda>c. \<not> (code_unit c \<le> 31 \<or> code_unit c = 127)) rawResponse))))"

record ParseResult =
  parse_success :: bool
  parse_data :: "json option"
  parse_error :: "string option"

definition parse_ok :: "json \<Rightarrow> ParseResult" where
  "parse_ok parsed = \<lparr>parse_success = True, parse_data = Some parsed, parse_error = None\<rparr>"

definition parseEvaluationResponse :: "string \<Rightarrow> ParseResult" where
  "parseEvaluationResponse rawResponse =
     (case JSON_parse rawResponse of
        Some parsed \<Rightarrow> parse_ok parsed
      | None \<Rightarrow>
          (case (case match_code_block rawResponse of
                   None \<Rightarrow> None
                 | Some block \<Rightarrow> JSON_parse (trim block)) of
             Some parsed \<Rightarrow> parse_ok parsed
           | None \<Rightarrow>
               (case (case match_object rawResponse of
                        None \<Rightarrow> None
                      | Some m \<Rightarrow> JSON_parse m) of
                  Some parsed \<Rightarrow> parse_ok parsed
                | None \<Rightarrow>
                    (case (case match_object (sanitize rawResponse) of
                             None \<Rightarrow> None
                           | Some m \<Rightarrow> JSON_parse m) of
                       Some parsed \<Rightarrow> parse_ok parsed
                     | None \<Rightarrow>
                         \<lparr>parse_success = False, parse_data = None,
                          parse_error =
                            Some ''Failed to parse response as JSON after all recovery attempts''\<rparr>))))"

section \<open>The score validator\<close>

record RubricCriterion =
  max_score :: jsnum
  weight_description :: string

record EvaluationRubricInput =
  rubric_concept_accuracy :: RubricCriterion
  rubric_example_usage :: RubricCriterion
  rubric_edge_cases :: RubricCriterion
  rubric_clarity :: RubricCriterion

record EvaluationInput =
  question_text :: string
  ideal_answer :: string
  rubric :: EvaluationRubricInput
  user_answer :: string

record EvaluationResult =
  concept_accuracy :: jsnum
  example_usage :: jsnum
  edge_cases :: jsnum
  clarity :: jsnum
  final_score :: jsnum
  overall_feedback :: string
  improvement_tips :: string

record ValidationError =
  field :: string
  message :: string
  received :: "json option"
  expected :: string

record ValidationWarning =
  warning_field :: string
  warning_message :: string
  action :: string

record Bounds =
  bound_min :: jsnum
  bound_max :: jsnum

datatype score_key =
  K_concept_accuracy | K_example_usage | K_edge_cases | K_clarity | K_final_score

fun key_name :: "score_key \<Rightarrow> string" where
  "key_name K_concept_accuracy = ''concept_accuracy''"
| "key_name K_example_usage = ''example_usage''"
| "key_name K_edge_cases = ''edge_cases''"
| "key_name K_clarity = ''clarity''"
| "key_name K_final_score = ''final_score''"

fun SCORE_BOUNDS :: "score_key \<Rightarrow> Bounds" where
  "SCORE_BOUNDS K_concept_accuracy = \<lparr>bound_min = Fin 0, bound_max = Fin 4\<rparr>"
| "SCORE_BOUNDS K_example_usage = \<lparr>bound_min = Fin 0, bound_max = Fin 3\<rparr>"
| "SCORE_BOUNDS K_edge_cases = \<lparr>bound_min = Fin 0, bound_max = Fin 2\<rparr>"
| "SCORE_BOUNDS K_clarity = \<lparr>bound_min = Fin 0, bound_max = Fin 1\<rparr>"
| "SCORE_BOUNDS K_final_score = \<lparr>bound_min = Fin 0, bound_max = Fin 10\<rparr>"

record ScoreRepair =
  score :: jsnum
  score_wasRepaired :: bool

text \<open>The arrays \<open>errors\<close> and \<open>warnings\<close>, which the source pushes onto, are passed in
  and returned.\<close>

definition validateAndRepairScore ::
  "runtime \<Rightarrow> json option \<Rightarrow> score_key \<Rightarrow> ValidationError list \<Rightarrow> ValidationWarning list
     \<Rightarrow> exn + (ScoreRepair \<times> ValidationError list \<times> ValidationWarning list)" where
  "validateAndRepairScore rt value fld errors warnings =
     (let bounds = SCORE_BOUNDS fld;
          expect = ''number between '' @ Number_toString rt (bound_min bounds)
                     @ '' and '' @ Number_toString rt (bound_max bounds)
      in if value = None \<or> value = Some JNull then
           Inr (\<lparr>score = Fin 0, score_wasRepaired = True\<rparr>,
                errors @ [\<lparr>field = key_name fld, message = ''Missing required field'',
                            received = value, expected = expect\<rparr>],
                warnings)
         else
           (case (case value of Some (JNum n) \<Rightarrow> Inr n | _ \<Rightarrow> Number_of rt value) of
              Inl e \<Rightarrow> Inl e
            | Inr score0 \<Rightarrow>
                if isNaN score0 then
                  Inr (\<lparr>score = Fin 0, score_wasRepaired = True\<rparr>,
                       errors @ [\<lparr>field = key_name fld, message = ''Invalid number'',
                                   received = value, expected = expect\<rparr>],
                       warnings)
                else
                  (let rounding = \<not> Number_isInteger score0;
                       warnings1 =
                         (if rounding then
                            warnings @ [\<lparr>warning_field = key_name fld,
                                          warning_message = ''Score was not an integer'',
                                          action = ''Rounded '' @ Number_toString rt score0 @ '' to ''
                                                     @ Number_toString rt (Math_round score0)\<rparr>]
                          else warnings);
                       score1 = (if rounding then Math_round score0 else score0);
                       below = js_less score1 (bound_min bounds);
                       warnings2 =
                         (if below then
                            warnings1 @ [\<lparr>warning_field = key_name fld,
                                           warning_message = ''Score below minimum'',
                                           action = ''Clamped '' @ Number_toString rt score1 @ '' to ''
                                                      @ Number_toString rt (bound_min bounds)\<rparr>]
                          else warnings1);
                       score2 = (if below then bound_min bounds else score1);
                       above = js_less (bound_max bounds) score2;
                       warnings3 =
                         (if above then
                            warnings2 @ [\<lparr>warning_field = key_name fld,
                                           warning_message = ''Score above maximum'',
                                           action = ''Clamped '' @ Number_toString rt score2 @ '' to ''
                                                      @ Number_toString rt (bound_max bounds)\<rparr>]
                          else warnings2);
                       score3 = (if above then bound_max bounds else score2)
                   in Inr (\<lparr>score = score3, score_wasRepaired = (rounding \<or> below \<or> above)\<rparr>,
                           errors, warnings3))))"

record TextRepair =
  text_result :: string
  text_wasRepaired :: bool

definition validateStringField ::
  "runtime \<Rightarrow> json option \<Rightarrow> string \<Rightarrow> nat \<Rightarrow> ValidationError list \<Rightarrow> ValidationWarning list
     \<Rightarrow> exn + (TextRepair \<times> ValidationError list \<times> ValidationWarning list)" where
  "validateStringField rt value fld maxLength errors warnings =
     (if value = None \<or> value = Some JNull then
        Inr (\<lparr>text_result = ''No feedback provided.'', text_wasRepaired = True\<rparr>,
             errors @ [\<lparr>field = fld, message = ''Missing required field'',
                         received = value, expected = ''non-empty string''\<rparr>],
             warnings)
      else
        (case String_of rt value of
           Inl e \<Rightarrow> Inl e
         | Inr text0 \<Rightarrow>
             (let empty = (length text0 = 0);
                  warnings1 =
                    (if empty then
                       warnings @ [\<lparr>warning_field = fld, warning_message = ''Empty string'',
                                     action = ''Set default value''\<rparr>]
                     else warnings);
                  text1 = (if empty then ''No feedback provided.'' else text0);
                  long = (maxLength < length text1);
                  warnings2 =
                    (if long then
                       warnings1 @ [\<lparr>warning_field = fld,
                                      warning_message = ''String exceeds maximum length'',
                                      action = ''Truncated from ''
                                                 @ Number_toString rt (Fin (of_nat (length text1)))
                                                 @ '' to '' @ Number_toString rt (Fin (of_nat maxLength))
                                                 @ '' characters''\<rparr>]
                     else warnings1);
                  text2 = (if long then take maxLength text1 @ ''...'' else text1)
              in Inr (\<lparr>text_result = text2, text_wasRepaired = (empty \<or> long)\<rparr>, errors, warnings2))))"

record ValidationResult =
  isValid :: bool
  data :: "EvaluationResult option"
  errors :: "ValidationError list"
  warnings :: "ValidationWarning list"
  wasRepaired :: bool

text \<open>The operator \<open>||\<close> on a string that may be \<open>undefined\<close>: the right operand
  stands in for \<open>undefined\<close> and for the empty string.\<close>

definition or_else :: "string option \<Rightarrow> string \<Rightarrow> string" where
  "or_else s d = (case s of None \<Rightarrow> d | Some t \<Rightarrow> if t = [] then d else t)"

definition critical_fields :: "string list" where
  "critical_fields = [''concept_accuracy'', ''example_usage'', ''edge_cases'', ''clarity'']"

definition validateEvaluationResult ::
  "runtime \<Rightarrow> string \<Rightarrow> EvaluationRubricInput option \<Rightarrow> exn + ValidationResult" where
  "validateEvaluationResult rt rawResponse rubric_unused =
     (let parseResult = parseEvaluationResponse rawResponse
      in case (if parse_success parseResult then parse_data parseResult else None) of
           None \<Rightarrow> Inr \<lparr>isValid = False, data = None,
                  errors = [\<lparr>field = ''response'',
                              message = or_else (parse_error parseResult) ''Invalid JSON'',
                              received = Some (JStr (take 200 rawResponse)),
                              expected = ''Valid JSON object''\<rparr>],
                  warnings = [], wasRepaired = False\<rparr>
         | Some d \<Rightarrow>
         if \<not> truthy d then
           Inr \<lparr>isValid = False, data = None,
                  errors = [\<lparr>field = ''response'',
                              message = or_else (parse_error parseResult) ''Invalid JSON'',
                              received = Some (JStr (take 200 rawResponse)),
                              expected = ''Valid JSON object''\<rparr>],
                  warnings = [], wasRepaired = False\<rparr>
         else
         (case validateAndRepairScore rt (get_property d ''concept_accuracy'') K_concept_accuracy [] [] of
            Inl e \<Rightarrow> Inl e
          | Inr (conceptResult, errors1, warnings1) \<Rightarrow>
         (case validateAndRepairScore rt (get_property d ''example_usage'') K_example_usage errors1 warnings1 of
            Inl e \<Rightarrow> Inl e
          | Inr (exampleResult, errors2, warnings2) \<Rightarrow>
         (case validateAndRepairScore rt (get_property d ''edge_cases'') K_edge_cases errors2 warnings2 of
            Inl e \<Rightarrow> Inl e
          | Inr (edgeResult, errors3, warnings3) \<Rightarrow>
         (case validateAndRepairScore rt (get_property d ''clarity'') K_clarity errors3 warnings3 of
            Inl e \<Rightarrow> Inl e
          | Inr (clarityResult, errors4, warnings4) \<Rightarrow>
         (let wasRepaired1 = (score_wasRepaired conceptResult \<or> score_wasRepaired exampleResult
                               \<or> score_wasRepaired edgeResult \<or> score_wasRepaired clarityResult);
              calculatedFinalScore =
                js_add (js_add (js_add (score conceptResult) (score exampleResult))
                          (score edgeResult)) (score clarityResult)
          in case (if get_property d ''final_score'' \<noteq> None
                   then Number_of rt (get_property d ''final_score'') else Inr calculatedFinalScore) of
               Inl e \<Rightarrow> Inl e
             | Inr providedFinal \<Rightarrow>
         (let mismatch = (get_property d ''final_score'' \<noteq> None \<and> \<not> isNaN providedFinal
                            \<and> providedFinal \<noteq> calculatedFinalScore);
              warnings5 =
                (if mismatch then
                   warnings4 @ [\<lparr>warning_field = ''final_score'',
                                  warning_message =
                                    ''Provided final_score doesn'' @ [CHR 0x27]
                                      @ ''t match sum of individual scores'',
                                  action = ''Corrected from '' @ Number_toString rt providedFinal
                                             @ '' to '' @ Number_toString rt calculatedFinalScore\<rparr>]
                 else warnings4);
              wasRepaired2 = (wasRepaired1 \<or> mismatch)
          in case validateStringField rt (get_property d ''overall_feedback'') ''overall_feedback''
                    1000 errors4 warnings5 of
               Inl e \<Rightarrow> Inl e
             | Inr (feedbackResult, errors5, warnings6) \<Rightarrow>
         (case validateStringField rt (get_property d ''improvement_tips'') ''improvement_tips''
                 1000 errors5 warnings6 of
            Inl e \<Rightarrow> Inl e
          | Inr (tipsResult, errors6, warnings7) \<Rightarrow>
              Inr \<lparr>isValid = \<not> list_ex (\<lambda>e. field e \<in> set critical_fields) errors6,
                     data = Some \<lparr>concept_accuracy = score conceptResult,
                                   example_usage = score exampleResult,
                                   edge_cases = score edgeResult,
                                   clarity = score clarityResult,
                                   final_score = calculatedFinalScore,
                                   overall_feedback = text_result feedbackResult,
                                   improvement_tips = text_result tipsResult\<rparr>,
                     errors = errors6,
                     warnings = warnings7,
                     wasRepaired = (wasRepaired2 \<or> text_wasRepaired feedbackResult
                                      \<or> text_wasRepaired tipsResult)\<rparr>))))))))"

section \<open>The recovery strategy and the default result\<close>

datatype RecoveryStrategy = RETRY_SAME_PROMPT | RETRY_SIMPLIFIED | USE_DEFAULT_SCORES | FAIL

definition determineRecoveryStrategy :: "ValidationResult \<Rightarrow> int \<Rightarrow> RecoveryStrategy" where
  "determineRecoveryStrategy validationResult retryCount =
     (let maxRetries = 2
      in if isValid validationResult then RETRY_SAME_PROMPT
         else if list_ex (\<lambda>e. field e = ''response'') (errors validationResult) then
           (if retryCount < maxRetries then
              (if retryCount = 0 then RETRY_SAME_PROMPT else RETRY_SIMPLIFIED)
            else USE_DEFAULT_SCORES)
         else if retryCount < maxRetries then RETRY_SIMPLIFIED
         else USE_DEFAULT_SCORES)"

definition getDefaultEvaluationResult :: "string \<Rightarrow> EvaluationResult" where
  "getDefaultEvaluationResult reason =
     \<lparr>concept_accuracy = Fin 0, example_usage = Fin 0, edge_cases = Fin 0, clarity = Fin 0,
      final_score = Fin 0,
      overall_feedback = ''Evaluation could not be completed: '' @ reason
                           @ ''. Please try again or contact support.'',
      improvement_tips = ''Unable to provide specific improvement tips at this time.''\<rparr>"

section \<open>The prompt builder\<close>

definition EVALUATION_SYSTEM_PROMPT :: string where
  \<open>EVALUATION_SYSTEM_PROMPT =
       ''You are an expert technical interviewer and answer evaluator. Your task is to evaluate interview answers against a rubric with STRICT scoring rules.\<newline>''
       @ ''\<newline>''
       @ ''CRITICAL RULES:\<newline>''
       @ ''1. You MUST return ONLY valid JSON - no markdown, no explanations outside JSON\<newline>''
       @ ''2. You MUST NOT exceed the max_score for any criterion\<newline>''
       @ ''3. You MUST be objective and consistent\<newline>''
       @ ''4. You MUST base scores ONLY on what the candidate wrote, not assumptions\<newline>''
       @ ''5. final_score MUST equal the sum of all individual scores\<newline>''
       @ ''6. Scores MUST be integers (whole numbers only)\<newline>''
       @ ''\<newline>''
       @ ''SCORING PHILOSOPHY:\<newline>''
       @ ''- Score based on demonstrated knowledge, not assumed knowledge\<newline>''
       @ ''- Partial credit is encouraged when concepts are partially correct\<newline>''
       @ ''- Missing information should reduce scores proportionally\<newline>''
       @ ''- Incorrect information should significantly reduce scores\<newline>''
       @ ''- Do not infer or assume the candidate knows more than what they wrote''\<close>

text \<open>The sum \<open>rubric.concept_accuracy.max_score + rubric.example_usage.max_score +
  rubric.edge_cases.max_score + rubric.clarity.max_score\<close> of both prompts.\<close>

definition total_max_score :: "EvaluationRubricInput \<Rightarrow> jsnum" where
  "total_max_score r =
     js_add (js_add (js_add (max_score (rubric_concept_accuracy r)) (max_score (rubric_example_usage r)))
               (max_score (rubric_edge_cases r))) (max_score (rubric_clarity r))"

definition buildEvaluationPrompt :: "runtime \<Rightarrow> EvaluationInput \<Rightarrow> string" where
  \<open>buildEvaluationPrompt rt input =
       ''Evaluate the following interview answer.\<newline>''
       @ ''\<newline>''
       @ ''## QUESTION\<newline>''
       @ question_text input
       @ ''\<newline>''
       @ ''\<newline>''
       @ ''## IDEAL ANSWER (Reference - Do not share with candidate)\<newline>''
       @ ideal_answer input
       @ ''\<newline>''
       @ ''\<newline>''
       @ ''## EVALUATION RUBRIC (STRICT SCORING LIMITS)\<newline>''
       @ ''1. concept_accuracy (0-''
       @ Number_toString rt (max_score (rubric_concept_accuracy (rubric input)))
       @ ''): ''
       @ weight_description (rubric_concept_accuracy (rubric input))
       @ ''\<newline>''
       @ ''2. example_usage (0-''
       @ Number_toString rt (max_score (rubric_example_usage (rubric input)))
       @ ''): ''
       @ weight_description (rubric_example_usage (rubric input))
       @ ''\<newline>''
       @ ''3. edge_cases (0-''
       @ Number_toString rt (max_score (rubric_edge_cases (rubric input)))
       @ ''): ''
       @ weight_description (rubric_edge_cases (rubric input))
       @ ''\<newline>''
       @ ''4. clarity (0-''
       @ Number_toString rt (max_score (rubric_clarity (rubric input)))
       @ ''): ''
       @ weight_description (rubric_clarity (rubric input))
       @ ''\<newline>''
       @ ''\<newline>''
       @ ''TOTAL MAX SCORE: ''
       @ Number_toString rt (total_max_score (rubric input))
       @ ''\<newline>''
       @ ''\<newline>''
       @ ''## CANDIDATE'S ANSWER\<newline>''
       @ user_answer input
       @ ''\<newline>''
       @ ''\<newline>''
       @ ''## REQUIRED OUTPUT FORMAT\<newline>''
       @ ''Return ONLY this JSON structure (no other text):\<newline>''
       @ ''{\<newline>''
       @ ''  "concept_accuracy": <integer 0-''
       @ Number_toString rt (max_score (rubric_concept_accuracy (rubric input)))
       @ ''>,\<newline>''
       @ ''  "example_usage": <integer 0-''
       @ Number_toString rt (max_score (rubric_example_usage (rubric input)))
       @ ''>,\<newline>''
       @ ''  "edge_cases": <integer 0-''
       @ Number_toString rt (max_score (rubric_edge_cases (rubric input)))
       @ ''>,\<newline>''
       @ ''  "clarity": <integer 0-''
       @ Number_toString rt (max_score (rubric_clarity (rubric input)))
       @ ''>,\<newline>''
       @ ''  "final_score": <integer, must equal sum of above>,\<newline>''
       @ ''  "overall_feedback": "<2-3 sentences summarizing performance>",\<newline>''
       @ ''  "improvement_tips": "<2-3 specific actionable improvements>"\<newline>''
       @ ''}\<newline>''
       @ ''\<newline>''
       @ ''VALIDATION CHECKLIST (self-verify before responding):\<newline>''
       @ ''- [ ] concept_accuracy is between 0 and ''
       @ Number_toString rt (max_score (rubric_concept_accuracy (rubric input)))
       @ ''\<newline>''
       @ ''- [ ] example_usage is between 0 and ''
       @ Number_toString rt (max_score (rubric_example_usage (rubric input)))
       @ ''\<newline>''
       @ ''- [ ] edge_cases is between 0 and ''
       @ Number_toString rt (max_score (rubric_edge_cases (rubric input)))
       @ ''\<newline>''
       @ ''- [ ] clarity is between 0 and ''
       @ Number_toString rt (max_score (rubric_clarity (rubric input)))
       @ ''\<newline>''
       @ ''- [ ] final_score equals concept_accuracy + example_usage + edge_cases + clarity\<newline>''
       @ ''- [ ] All scores are integers\<newline>''
       @ ''- [ ] Output is valid JSON only''\<close>

definition buildFallbackPrompt :: "runtime \<Rightarrow> EvaluationInput \<Rightarrow> string" where
  \<open>buildFallbackPrompt rt input =
     (let maxTotal = total_max_score (rubric input)
      in ''Rate this interview answer on a scale of 0-''
         @ Number_toString rt maxTotal
         @ ''.\<newline>''
         @ ''\<newline>''
         @ ''Question: ''
         @ question_text input
         @ ''\<newline>''
         @ ''\<newline>''
         @ ''Ideal Answer Summary: ''
         @ take 500 (ideal_answer input)
         @ ''...\<newline>''
         @ ''\<newline>''
         @ ''Candidate Answer: ''
         @ user_answer input
         @ ''\<newline>''
         @ ''\<newline>''
         @ ''Scoring:\<newline>''
         @ ''- concept_accuracy: max ''
         @ Number_toString rt (max_score (rubric_concept_accuracy (rubric input)))
         @ ''\<newline>''
         @ ''- example_usage: max ''
         @ Number_toString rt (max_score (rubric_example_usage (rubric input)))
         @ ''\<newline>''
         @ ''- edge_cases: max ''
         @ Number_toString rt (max_score (rubric_edge_cases (rubric input)))
         @ ''\<newline>''
         @ ''- clarity: max ''
         @ Number_toString rt (max_score (rubric_clarity (rubric input)))
         @ ''\<newline>''
         @ ''\<newline>''
         @ ''Return JSON only:\<newline>''
         @ ''{"concept_accuracy":0,"example_usage":0,"edge_cases":0,"clarity":0,"final_score":0,"overall_feedback":"","improvement_tips":""}'')\<close>

section \<open>The provider client and the evaluation orchestrator\<close>

record TokenUsage =
  prompt_tokens :: jsnum
  completion_tokens :: jsnum
  total_tokens :: jsnum

record LLMProviderResponse =
  content :: string
  usage :: "TokenUsage option"
  finishReason :: "string option"

record LLMConfig =
  provider :: string
  model :: string
  temperature :: jsnum
  max_tokens :: jsnum
  top_p :: "jsnum option"
  frequency_penalty :: "jsnum option"
  presence_penalty :: "jsnum option"

definition DEFAULT_LLM_CONFIG :: LLMConfig where
  "DEFAULT_LLM_CONFIG =
     \<lparr>provider = ''openai'', model = ''gpt-4o-mini'', temperature = toDouble (1 / 10),
      max_tokens = Fin 1024, top_p = Some (toDouble (95 / 100)),
      frequency_penalty = Some (Fin 0), presence_penalty = Some (Fin 0)\<rparr>"

text \<open>
  What a \<open>catch\<close> clause can receive: an \<open>Error\<close> with its message, or a value that
  is no \<open>Error\<close>.
\<close>

datatype thrown = Error string | Thrown_value

text \<open>
  What the promise of one \<open>provider.call\<close> does before the deadline \<open>timeoutMs\<close> of
  \<open>callWithTimeout\<close>: it resolves, it rejects (a call that throws at once is caught by
  the same \<open>try\<close>), or it is still pending. A provider answers each call of one
  evaluation as it likes; the first argument is the number of calls \<open>evaluate\<close> has made
  before this one, which is also its \<open>retryCount\<close>, every attempt that does not end the
  loop adding one to it.
\<close>

datatype settlement = Resolves LLMProviderResponse | Rejects thrown | Pending

type_synonym LLMProvider = "nat \<Rightarrow> string \<Rightarrow> string \<Rightarrow> LLMConfig \<Rightarrow> settlement"

definition getProvider :: "(string \<Rightarrow> LLMProvider option) \<Rightarrow> string \<Rightarrow> thrown + LLMProvider" where
  "getProvider providers name =
     (case providers name of
        None \<Rightarrow> Inl (Error (''Unknown LLM provider: '' @ name))
      | Some p \<Rightarrow> Inr p)"

definition callWithTimeout :: "settlement \<Rightarrow> thrown + LLMProviderResponse" where
  "callWithTimeout promise =
     (case promise of
        Resolves r \<Rightarrow> Inr r
      | Rejects t \<Rightarrow> Inl t
      | Pending \<Rightarrow> Inl (Error ''Request timeout''))"

record EvaluationClient =
  config :: LLMConfig
  maxRetries :: int
  timeoutMs :: int

text \<open>\<open>new EvaluationClient()\<close>, no option given.\<close>

definition default_client :: EvaluationClient where
  "default_client = \<lparr>config = DEFAULT_LLM_CONFIG, maxRetries = 2, timeoutMs = 30000\<rparr>"

text \<open>The metadata without its two clock readings \<open>evaluation_timestamp\<close> and
  \<open>processing_time_ms\<close>.\<close>

record EvaluationMetadata =
  model_used :: string
  model_version :: string
  token_usage :: "TokenUsage option"
  retry_count :: nat

record EvaluationError =
  error_code :: string
  error_message :: string

record EvaluationResponse =
  success :: bool
  response_data :: "EvaluationResult option"
  metadata :: "EvaluationMetadata option"
  error :: "EvaluationError option"

definition catch_message :: "thrown \<Rightarrow> string" where
  "catch_message t = (case t of Error m \<Rightarrow> m | Thrown_value \<Rightarrow> ''Unknown error'')"

definition exhausted_response ::
  "EvaluationClient \<Rightarrow> string option \<Rightarrow> TokenUsage option \<Rightarrow> nat \<Rightarrow> EvaluationResponse" where
  "exhausted_response client lastError tokenUsage retryCount =
     \<lparr>success = False,
      response_data = Some (getDefaultEvaluationResult (or_else lastError ''Evaluation failed'')),
      metadata = Some \<lparr>model_used = provider (config client), model_version = model (config client),
                         token_usage = tokenUsage, retry_count = retryCount\<rparr>,
      error = Some \<lparr>error_code = ''EVALUATION_FAILED'',
                      error_message = or_else lastError ''Failed to evaluate answer after retries''\<rparr>\<rparr>"

text \<open>
  The \<open>while\<close> loop of \<open>evaluate\<close> with its variables \<open>retryCount\<close>, \<open>lastError\<close> and
  \<open>tokenUsage\<close>, and the response after it. The result carries, beside the response, the
  user prompts sent to the provider, in order.
\<close>

function evaluate_loop ::
  "runtime \<Rightarrow> EvaluationClient \<Rightarrow> LLMProvider \<Rightarrow> EvaluationInput
     \<Rightarrow> nat \<Rightarrow> string option \<Rightarrow> TokenUsage option \<Rightarrow> string list
     \<Rightarrow> EvaluationResponse \<times> string list" where
  "evaluate_loop rt client p input retryCount lastError tokenUsage sent =
     (if int retryCount \<le> maxRetries client then
        (let userPrompt = (if retryCount = 0 then buildEvaluationPrompt rt input
                           else buildFallbackPrompt rt input)
         in case callWithTimeout (p retryCount EVALUATION_SYSTEM_PROMPT userPrompt (config client)) of
              Inl t \<Rightarrow>
                evaluate_loop rt client p input (Suc retryCount) (Some (catch_message t))
                  tokenUsage (sent @ [userPrompt])
            | Inr llmResponse \<Rightarrow>
                (case validateEvaluationResult rt (content llmResponse) None of
                   Inl TypeError \<Rightarrow>
                     evaluate_loop rt client p input (Suc retryCount) (Some (TypeError_message rt))
                       (usage llmResponse) (sent @ [userPrompt])
                 | Inr validation \<Rightarrow>
                     if isValid validation \<and> data validation \<noteq> None then
                       (\<lparr>success = True, response_data = data validation,
                         metadata = Some \<lparr>model_used = provider (config client),
                                            model_version = model (config client),
                                            token_usage = usage llmResponse,
                                            retry_count = retryCount\<rparr>,
                         error = None\<rparr>,
                        sent @ [userPrompt])
                     else if determineRecoveryStrategy validation (int retryCount) = USE_DEFAULT_SCORES
                     then (exhausted_response client lastError (usage llmResponse) retryCount,
                           sent @ [userPrompt])
                     else
                       evaluate_loop rt client p input (Suc retryCount)
                         (Some (or_else (case errors validation of
                                           [] \<Rightarrow> None
                                         | e # es \<Rightarrow> Some (message e)) ''Validation failed''))
                         (usage llmResponse) (sent @ [userPrompt])))
      else (exhausted_response client lastError tokenUsage retryCount, sent))"
  by pat_completeness auto
termination
  by (relation "measure (\<lambda>(rt, client, p, input, retryCount, lastError, tokenUsage, sent).
        nat (maxRetries client + 1 - int retryCount))") auto
declare evaluate_loop.simps [simp del]

definition evaluate ::
  "runtime \<Rightarrow> (string \<Rightarrow> LLMProvider option) \<Rightarrow> EvaluationClient \<Rightarrow> EvaluationInput
     \<Rightarrow> thrown + EvaluationResponse" where
  "evaluate rt providers client input =
     (case getProvider providers (provider (config client)) of
        Inl t \<Rightarrow> Inl t
      | Inr p \<Rightarrow> Inr (fst (evaluate_loop rt client p input 0 None None [])))"

text \<open>The user prompts one call of \<open>evaluate\<close> sends to its provider.\<close>

definition evaluate_prompts ::
  "runtime \<Rightarrow> (string \<Rightarrow> LLMProvider option) \<Rightarrow> EvaluationClient \<Rightarrow> EvaluationInput
     \<Rightarrow> string list" where
  "evaluate_prompts rt providers client input =
     (case getProvider providers (provider (config client)) of
        Inl t \<Rightarrow> []
      | Inr p \<Rightarrow> snd (evaluate_loop rt client p input 0 None None []))"

section \<open>The weighted scoring of the \<open>evaluate-answer\<close> function\<close>

text \<open>\<open>Number(parsed.k) || 0\<close>: zero stands in for \<open>NaN\<close> and for zero.\<close>

definition number_or_zero :: "runtime \<Rightarrow> json option \<Rightarrow> exn + jsnum" where
  "number_or_zero rt value =
     (case Number_of rt value of
        Inl e \<Rightarrow> Inl e
      | Inr n \<Rightarrow> Inr (if isNaN n \<or> n = Fin 0 then Fin 0 else n))"

text \<open>\<open>rubric?.k ?? d\<close>, the rubric being the column of the question row: absent, \<open>null\<close>
  or any JSON value.\<close>

definition weight_or :: "json option \<Rightarrow> string \<Rightarrow> jsnum \<Rightarrow> json" where
  "weight_or rubric_value k d =
     (case rubric_value of
        None \<Rightarrow> JNum d
      | Some JNull \<Rightarrow> JNum d
      | Some r \<Rightarrow>
          (case get_property r k of
             None \<Rightarrow> JNum d
           | Some JNull \<Rightarrow> JNum d
           | Some w \<Rightarrow> w))"

text \<open>
  The scoring block, from the parsed output of the model to \<open>finalScore\<close>. Reading a
  property of \<open>null\<close> throws a \<open>TypeError\<close>; a weight that is no number is converted by
  the multiplication.
\<close>

definition weighted_final_score :: "runtime \<Rightarrow> json option \<Rightarrow> json \<Rightarrow> exn + jsnum" where
  "weighted_final_score rt rubric_value parsed =
     (if parsed = JNull then Inl TypeError
      else
        (case number_or_zero rt (get_property parsed ''concept_accuracy'') of
           Inl e \<Rightarrow> Inl e
         | Inr concept \<Rightarrow>
        (case number_or_zero rt (get_property parsed ''clarity'') of
           Inl e \<Rightarrow> Inl e
         | Inr clarity_value \<Rightarrow>
        (case number_or_zero rt (get_property parsed ''example_usage'') of
           Inl e \<Rightarrow> Inl e
         | Inr example \<Rightarrow>
        (case number_or_zero rt (get_property parsed ''edge_cases'') of
           Inl e \<Rightarrow> Inl e
         | Inr edge \<Rightarrow>
        (case ToNumber rt (weight_or rubric_value ''concept_accuracy'' (toDouble (4 / 10))) of
           Inl e \<Rightarrow> Inl e
         | Inr w_concept \<Rightarrow>
        (case ToNumber rt (weight_or rubric_value ''clarity'' (toDouble (3 / 10))) of
           Inl e \<Rightarrow> Inl e
         | Inr w_clarity \<Rightarrow>
        (case ToNumber rt (weight_or rubric_value ''example_usage'' (toDouble (2 / 10))) of
           Inl e \<Rightarrow> Inl e
         | Inr w_example \<Rightarrow>
        (case ToNumber rt (weight_or rubric_value ''edge_cases'' (toDouble (1 / 10))) of
           Inl e \<Rightarrow> Inl e
         | Inr w_edge \<Rightarrow>
             (let rawScore =
                    js_add (js_add (js_add (js_mul concept w_concept) (js_mul clarity_value w_clarity))
                              (js_mul example w_example)) (js_mul edge w_edge);
                  normalized = Math_min rawScore (Fin 1);
                  finalScore = Math_round (js_mul normalized (Fin 10))
              in Inr finalScore))))))))))"

section \<open>A runtime to run the examples on\<close>

text \<open>
  The decimal digits of a natural number, and a runtime that prints integers, \<open>NaN\<close>
  and the infinities as JavaScript does (integers below \<open>10\<^sup>2\<^sup>1\<close>); a number with a
  fraction prints as its integer part. Its \<open>TypeError\<close> message is the one of V8.
\<close>

function decimal_digits :: "nat \<Rightarrow> string" where
  "decimal_digits n =
     (if n < 10 then [char_of (48 + n)]
      else decimal_digits (n div 10) @ [char_of (48 + n mod 10)])"
  by pat_completeness auto
termination
  by (relation "measure id") auto
declare decimal_digits.simps [simp del]

definition print_number :: "jsnum \<Rightarrow> string" where
  "print_number n =
     (case n of
        NaN \<Rightarrow> ''NaN''
      | PInf \<Rightarrow> ''Infinity''
      | NInf \<Rightarrow> ''-Infinity''
      | Fin r \<Rightarrow>
          (if r < 0 then ''-'' @ decimal_digits (nat \<lfloor>- r\<rfloor>)
           else decimal_digits (nat \<lfloor>r\<rfloor>)))"

definition sample_runtime :: runtime where
  "sample_runtime =
     \<lparr>Number_toString = print_number,
      TypeError_message = ''Cannot convert object to primitive value''\<rparr>"

section \<open>Responses to run the examples on\<close>

text \<open>The object of the specification's parsing example, bare, in a fenced block inside
  prose, and written with single quotes and a trailing comma.\<close>

definition response_plain :: string where
  \<open>response_plain =
     ''{"concept_accuracy":3,"example_usage":2,"edge_cases":1,"clarity":1,"final_score":7,''
     @ ''"overall_feedback":"ok","improvement_tips":"ok"}''\<close>

definition response_fenced :: string where
  \<open>response_fenced =
     ''Sure! Here is the result:\<newline>```json\<newline>'' @ response_plain @ ''\<newline>```\<newline>Hope this helps.''\<close>

definition response_quoted :: string where
  \<open>response_quoted =
     ''{'concept_accuracy':3,'example_usage':2,'edge_cases':1,'clarity':1,'final_score':7,''
     @ '' 'overall_feedback':'ok','improvement_tips':'ok', }''\<close>

definition parsed_example :: json where
  "parsed_example =
     JObj [(''concept_accuracy'', JNum (Fin 3)), (''example_usage'', JNum (Fin 2)),
           (''edge_cases'', JNum (Fin 1)), (''clarity'', JNum (Fin 1)),
           (''final_score'', JNum (Fin 7)), (''overall_feedback'', JStr ''ok''),
           (''improvement_tips'', JStr ''ok'')]"

text \<open>A response whose \<open>concept_accuracy\<close> is above its bound, one whose \<open>final_score\<close>
  has no conversion to a number, and one with a criterion that is no number and three
  criteria missing.\<close>

definition response_above :: string where
  \<open>response_above =
     ''{"concept_accuracy":7,"example_usage":2,"edge_cases":1,"clarity":1,"final_score":11,''
     @ ''"overall_feedback":"ok","improvement_tips":"ok"}''\<close>

definition response_unconvertible :: string where
  \<open>response_unconvertible =
     ''{"concept_accuracy":1,"example_usage":1,"edge_cases":1,"clarity":1,''
     @ ''"final_score":{"toString":0}}''\<close>

definition response_partial :: string where
  \<open>response_partial = ''{"concept_accuracy":"high","example_usage":7}''\<close>

section \<open>Notions the properties are stated with\<close>

text \<open>
  A criterion value is numeric when the validator reads a number from it: it is there, it
  is not \<open>null\<close>, its conversion does not throw and does not give \<open>NaN\<close>.
\<close>

definition numeric :: "runtime \<Rightarrow> json option \<Rightarrow> bool" where
  "numeric rt value =
     (case value of
        None \<Rightarrow> False
      | Some JNull \<Rightarrow> False
      | Some v \<Rightarrow> (case ToNumber rt v of Inl e \<Rightarrow> False | Inr x \<Rightarrow> x \<noteq> NaN))"

text \<open>The repair of a criterion score in the words of the specification: a value that
  is no integer is rounded to the nearest integer, and the result is clamped into the
  bounds of its criterion.\<close>

definition clamp_to :: "score_key \<Rightarrow> jsnum \<Rightarrow> jsnum" where
  "clamp_to k x =
     (if js_less x (bound_min (SCORE_BOUNDS k)) then bound_min (SCORE_BOUNDS k)
      else if js_less (bound_max (SCORE_BOUNDS k)) x then bound_max (SCORE_BOUNDS k)
      else x)"

definition repaired :: "score_key \<Rightarrow> jsnum \<Rightarrow> jsnum" where
  "repaired k x = clamp_to k (if Number_isInteger x then x else Math_round x)"

definition out_of_bounds :: "score_key \<Rightarrow> jsnum \<Rightarrow> bool" where
  "out_of_bounds k x =
     (js_less x (bound_min (SCORE_BOUNDS k)) \<or> js_less (bound_max (SCORE_BOUNDS k)) x)"

definition within_bounds :: "score_key \<Rightarrow> jsnum \<Rightarrow> bool" where
  "within_bounds k x = (Number_isInteger x \<and> \<not> out_of_bounds k x)"

definition finite_value :: "jsnum \<Rightarrow> rat" where
  "finite_value x = (case x of Fin r \<Rightarrow> r | _ \<Rightarrow> 0)"

text \<open>An evaluation result is well formed when each criterion score is an integer within
  the bounds of its criterion and the final score is their sum, within its own bounds.\<close>

definition well_formed :: "EvaluationResult \<Rightarrow> bool" where
  "well_formed r =
     (within_bounds K_concept_accuracy (concept_accuracy r)
      \<and> within_bounds K_example_usage (example_usage r)
      \<and> within_bounds K_edge_cases (edge_cases r)
      \<and> within_bounds K_clarity (clarity r)
      \<and> within_bounds K_final_score (final_score r)
      \<and> final_score r =
            Fin (finite_value (concept_accuracy r) + finite_value (example_usage r)
                 + finite_value (edge_cases r) + finite_value (clarity r)))"

text \<open>The number the validator reads from a criterion value, and the score it gives the
  criterion: the repaired number, or zero where the value is not numeric.\<close>

definition read_number :: "runtime \<Rightarrow> json option \<Rightarrow> jsnum" where
  "read_number rt value = (case Number_of rt value of Inl e \<Rightarrow> NaN | Inr x \<Rightarrow> x)"

definition criterion_score :: "runtime \<Rightarrow> score_key \<Rightarrow> json option \<Rightarrow> jsnum" where
  "criterion_score rt k value =
     (if numeric rt value then repaired k (read_number rt value) else Fin 0)"

text \<open>A value whose conversion to a string or to a number throws: an object with a
  member \<open>toString\<close>, or an array that holds such a value.\<close>

fun unconvertible :: "json \<Rightarrow> bool"
  and some_unconvertible :: "json list \<Rightarrow> bool" where
  "unconvertible JNull = False"
| "unconvertible (JBool b) = False"
| "unconvertible (JNum n) = False"
| "unconvertible (JStr s) = False"
| "unconvertible (JArr vs) = some_unconvertible vs"
| "unconvertible (JObj kvs) = (map_of kvs ''toString'' \<noteq> None)"
| "some_unconvertible [] = False"
| "some_unconvertible (v # vs) = (unconvertible v \<or> some_unconvertible vs)"

definition throws :: "json option \<Rightarrow> bool" where
  "throws value = (case value of None \<Rightarrow> False | Some v \<Rightarrow> unconvertible v)"

definition critical :: "ValidationError list \<Rightarrow> bool" where
  "critical es = list_ex (\<lambda>e. field e \<in> set critical_fields) es"

section \<open>Properties of the number model\<close>

lemma log2_up_bounds:
  "1 \<le> x \<Longrightarrow> 0 \<le> log2_up x \<and> 2 ^ nat (log2_up x) \<le> x \<and> x < 2 * 2 ^ nat (log2_up x)"
proof (induction x rule: log2_up.induct)
  case (1 x)
  show ?case
  proof (cases "2 \<le> x")
    case True
    then have h: "1 \<le> x / 2" by simp
    from "1.IH" [OF True h] have ih: "0 \<le> log2_up (x / 2)"
      "2 ^ nat (log2_up (x / 2)) \<le> x / 2" "x / 2 < 2 * 2 ^ nat (log2_up (x / 2))"
      by simp_all
    have eq: "log2_up x = log2_up (x / 2) + 1"
      using True by (subst log2_up.simps) simp
    from ih(1) have n: "nat (log2_up (x / 2) + 1) = Suc (nat (log2_up (x / 2)))" by simp
    show ?thesis using ih unfolding eq n by simp
  next
    case False
    then have "log2_up x = 0" by (subst log2_up.simps) simp
    with False "1.prems" show ?thesis by simp
  qed
qed

lemma round_half_even_of_int: "round_half_even (of_int m) = m"
  by (simp add: round_half_even_def)

text \<open>An integer below \<open>2\<^sup>5\<^sup>3\<close> in absolute value is a double: rounding leaves it as it is.\<close>

lemma toDouble_of_int:
  assumes "\<bar>n\<bar> < 2 ^ 53"
  shows "toDouble (of_int n) = Fin (of_int n)"
proof (cases "n = 0")
  case True
  then show ?thesis by (simp add: toDouble_def)
next
  case False
  define a :: rat where "a = \<bar>of_int n\<bar>"
  have an: "a = of_int \<bar>n\<bar>" by (simp add: a_def)
  from False have "1 \<le> \<bar>n\<bar>" by simp
  then have a1: "1 \<le> a" unfolding an by (simp only: of_int_1_le_iff)
  have a53: "a < 2 ^ 53"
  proof -
    have "of_int \<bar>n\<bar> < (of_int (2 ^ 53) :: rat)" using assms by (simp only: of_int_less_iff)
    then show ?thesis unfolding an by simp
  qed
  define e where "e = log2_up a"
  from log2_up_bounds [OF a1] have e0: "0 \<le> e" and lo: "(2::rat) ^ nat e \<le> a"
    by (simp_all add: e_def)
  from lo a53 have lt: "(2::rat) ^ nat e < 2 ^ 53" by (rule le_less_trans)
  have "nat e < 53" by (rule power_less_imp_less_exp [OF _ lt]) simp
  with e0 have e52: "e \<le> 52" by simp
  define k where "k = nat (52 - e)"
  have q: "pow2 (e - 52) = 1 / 2 ^ k"
    using e52 by (auto simp: pow2_def k_def)
  have il: "ilog2 a = e" using a1 by (simp add: ilog2_def e_def)
  have mx: "max e (- 1022) = e" using e0 by simp
  have aq: "a / (1 / 2 ^ k) = of_int (\<bar>n\<bar> * 2 ^ k)" unfolding an by simp
  have y: "of_int (round_half_even (a / (1 / 2 ^ k))) * (1 / 2 ^ k) = a"
    unfolding aq round_half_even_of_int using an by simp
  have big: "\<not> pow2 1024 \<le> a"
  proof -
    have "(2::rat) ^ 53 < 2 ^ 1024" by (rule power_strict_increasing) simp_all
    with a53 show ?thesis by (simp add: pow2_def)
  qed
  have nz: "(of_int n :: rat) \<noteq> 0" using False by simp
  have sgn: "(if (of_int n :: rat) < 0 then - a else a) = of_int n"
    by (simp add: a_def)
  show ?thesis
    unfolding toDouble_def Let_def a_def [symmetric] il mx q y
    using nz big sgn by (simp only: if_False)
qed

lemma toDouble_numeral:
  "numeral k < (2::int) ^ 53 \<Longrightarrow> toDouble (numeral k) = Fin (numeral k)"
  using toDouble_of_int [of "numeral k"] by simp

lemma toDouble_neg_numeral:
  "numeral k < (2::int) ^ 53 \<Longrightarrow> toDouble (- numeral k) = Fin (- numeral k)"
  using toDouble_of_int [of "- numeral k"] by simp

lemma toDouble_0: "toDouble 0 = Fin 0"
  by (simp add: toDouble_def)

lemma toDouble_1: "toDouble 1 = Fin 1"
  using toDouble_of_int [of 1] by simp

lemmas toDouble_int_simps = toDouble_numeral toDouble_neg_numeral toDouble_0 toDouble_1

lemma log2_up_step: "2 \<le> x \<Longrightarrow> log2_up x = log2_up (x / 2) + 1"
  by (subst log2_up.simps) simp

lemma log2_up_stop: "x < 2 \<Longrightarrow> log2_up x = 0"
  by (subst log2_up.simps) simp

lemma log2_down_step: "0 < x \<Longrightarrow> x < 1 \<Longrightarrow> log2_down x = log2_down (2 * x) - 1"
  by (subst log2_down.simps) simp

lemma log2_down_stop: "1 \<le> x \<Longrightarrow> log2_down x = 0"
  by (subst log2_down.simps) simp

lemma floor_rat_numeral: "\<lfloor>numeral a / numeral b :: rat\<rfloor> = numeral a div numeral b"
  by (metis floor_divide_of_int_eq of_int_numeral)

lemma floor_rat_neg_numeral:
  "\<lfloor>- (numeral a / numeral b) :: rat\<rfloor> = - numeral a div numeral b"
  by (metis divide_minus_left floor_divide_of_int_eq of_int_neg_numeral of_int_numeral)

text \<open>The equations that evaluate the model on a given text or number.\<close>

lemmas toDouble_eval = toDouble_def ilog2_def log2_up_step log2_up_stop log2_down_step
  log2_down_stop pow2_def round_half_even_def Let_def floor_rat_numeral floor_rat_neg_numeral

lemmas json_eval = JSON_parse_def parse_value.simps parse_elements.simps parse_members.simps
  skip_ws_def is_json_ws_def code_unit_def starts_with_def json_number_def is_digit_def
  digit_value_def digits_value_def Let_def toDouble_int_simps unescape_def pow10_def

lemmas recover_eval = parseEvaluationResponse_def parse_ok_def match_code_block_def
  match_object_def fence_def sanitize_def trim_def is_white_space_def

section \<open>Properties of the validator\<close>

lemma bounds_ordered: "\<not> js_less (bound_max (SCORE_BOUNDS k)) (bound_min (SCORE_BOUNDS k))"
  by (cases k) simp_all

lemma Number_of_JNum: "(case value of Some (JNum n) \<Rightarrow> Inr n | _ \<Rightarrow> Number_of rt value) = Number_of rt value"
  by (auto simp: Number_of_def ToNumber_def split: option.splits json.splits)

lemma numericD:
  assumes "numeric rt value"
  obtains x where "Number_of rt value = Inr x" "x \<noteq> NaN" "value \<noteq> None" "value \<noteq> Some JNull"
  using assms by (auto simp: numeric_def Number_of_def split: option.splits json.splits sum.splits)

lemma validateAndRepairScore_numeric:
  assumes "numeric rt value" and "Number_of rt value = Inr x"
  shows "\<exists>ws'. validateAndRepairScore rt value k es ws =
           Inr (\<lparr>score = repaired k x, score_wasRepaired = (ws' \<noteq> [])\<rparr>, es, ws @ ws')
         \<and> (ws' \<noteq> [] \<longleftrightarrow> \<not> Number_isInteger x \<or> out_of_bounds k x)
         \<and> (\<not> Number_isInteger x \<longrightarrow> list_ex (\<lambda>w. warning_message w = ''Score was not an integer'') ws')
         \<and> list_all (\<lambda>w. warning_field w = key_name k) ws'"
proof -
  from assms have nn: "x \<noteq> NaN" "value \<noteq> None" "value \<noteq> Some JNull"
    by (auto elim!: numericD)
  have num: "(case value of Some (JNum n) \<Rightarrow> Inr n | _ \<Rightarrow> Number_of rt value) = Inr x"
    using assms(2) by (simp add: Number_of_JNum)
  show ?thesis
    unfolding validateAndRepairScore_def
    using nn bounds_ordered [of k]
    by (simp add: num isNaN_def Let_def repaired_def clamp_to_def out_of_bounds_def)
qed


lemma exn_cases: "(e::exn) = TypeError"
  by (cases e) simp

lemma exn_eq [simp]: "((a::exn) = b) = True"
  by (cases a, cases b) simp

lemma ToString_TypeError:
  "(ToString rt v = Inl TypeError) = unconvertible v"
  "(join_elements rt vs = Inl TypeError) = some_unconvertible vs"
  by (induction rt v and rt vs rule: ToString_join_elements.induct)
     (auto split: sum.splits)

lemma ToString_throws:
  "(ToString rt v = Inl e) = unconvertible v"
  "(join_elements rt vs = Inl e) = some_unconvertible vs"
  using ToString_TypeError(1) [of rt v] ToString_TypeError(2) [of rt vs] by (simp_all add: exn_cases [of e])


lemma ToString_Inr:
  "ToString rt v = Inr s \<Longrightarrow> \<not> unconvertible v"
  "join_elements rt vs = Inr ss \<Longrightarrow> \<not> some_unconvertible vs"
  using ToString_throws(1) [of rt v TypeError] ToString_throws(2) [of rt vs TypeError] by auto

lemma ToNumber_throws: "(ToNumber rt v = Inl e) = unconvertible v"
  by (cases v) (auto simp: ToNumber_def ToString_throws dest: ToString_Inr split: sum.splits)

lemma Number_of_throws: "(Number_of rt value = Inl e) = throws value"
  by (cases "value") (simp_all add: Number_of_def throws_def ToNumber_throws)

lemma String_of_throws: "(String_of rt value = Inl e) = throws value"
  by (cases "value") (simp_all add: String_of_def throws_def ToString_throws)

lemma numeric_not_throws: "numeric rt value \<Longrightarrow> \<not> throws value"
  using Number_of_throws [of rt "value" TypeError]
  by (auto simp: numeric_def Number_of_def split: option.splits json.splits sum.splits)

lemma read_number_eq: "Number_of rt value = Inr x \<Longrightarrow> read_number rt value = x"
  by (simp add: read_number_def)

lemma validateAndRepairScore_not_numeric:
  assumes "\<not> numeric rt value" and "\<not> throws value \<or> value = Some JNull"
  shows "\<exists>e. validateAndRepairScore rt value k es ws =
           Inr (\<lparr>score = Fin 0, score_wasRepaired = True\<rparr>, es @ [e], ws)
         \<and> field e = key_name k"
proof (cases "value = None \<or> value = Some JNull")
  case True
  then show ?thesis by (auto simp: validateAndRepairScore_def Let_def)
next
  case False
  with assms(2) have "\<not> throws value" by simp
  then obtain x where x: "Number_of rt value = Inr x"
    using Number_of_throws [of rt "value"] by (cases "Number_of rt value") auto
  with assms(1) False have "x = NaN"
    by (auto simp: numeric_def Number_of_def split: option.splits json.splits sum.splits)
  have num: "(case value of Some (JNum n) \<Rightarrow> Inr n | _ \<Rightarrow> Number_of rt value) = Inr x"
    using x by (simp add: Number_of_JNum)
  show ?thesis
    unfolding validateAndRepairScore_def
    using False \<open>x = NaN\<close> by (simp add: num isNaN_def Let_def)
qed

lemma validateAndRepairScore_throws:
  assumes "throws value" and "value \<noteq> Some JNull"
  shows "validateAndRepairScore rt value k es ws = Inl TypeError"
proof -
  from assms(1) have nn: "value \<noteq> None" by (auto simp: throws_def split: option.splits)
  have num: "(case value of Some (JNum n) \<Rightarrow> Inr n | _ \<Rightarrow> Number_of rt value) = Inl TypeError"
    using assms(1) Number_of_throws [of rt "value" TypeError] by (simp add: Number_of_JNum)
  show ?thesis
    unfolding validateAndRepairScore_def using nn assms(2) by (simp add: num Let_def)
qed


lemma key_name_critical: "k \<noteq> K_final_score \<Longrightarrow> key_name k \<in> set critical_fields"
  by (cases k) (simp_all add: critical_fields_def)

lemma key_name_final: "k \<noteq> K_final_score \<Longrightarrow> key_name k \<noteq> ''final_score''"
  by (cases k) simp_all

lemma critical_append [simp]: "critical (es @ es') = (critical es \<or> critical es')"
  by (simp add: critical_def list_ex_iff) blast

lemma critical_Nil [simp]: "critical [] = False"
  by (simp add: critical_def)

lemma critical_single [simp]: "critical [e] = (field e \<in> set critical_fields)"
  by (simp add: critical_def)

lemma score_step:
  assumes "validateAndRepairScore rt value k es ws = Inr (sr, es', ws')" and "k \<noteq> K_final_score"
  shows "score sr = criterion_score rt k value"
    and "critical es' = (critical es \<or> \<not> numeric rt value)"
    and "list_ex (\<lambda>e. field e = ''final_score'') es' = list_ex (\<lambda>e. field e = ''final_score'') es"
proof -
  have "score sr = criterion_score rt k value
      \<and> critical es' = (critical es \<or> \<not> numeric rt value)
      \<and> list_ex (\<lambda>e. field e = ''final_score'') es' = list_ex (\<lambda>e. field e = ''final_score'') es"
  proof (cases "numeric rt value")
    case True
    then obtain x where x: "Number_of rt value = Inr x" by (auto elim: numericD)
    from validateAndRepairScore_numeric [OF True x, of k es ws] assms(1) True x
    show ?thesis by (auto simp: criterion_score_def read_number_def)
  next
    case False
    show ?thesis
    proof (cases "throws value \<and> value \<noteq> Some JNull")
      case True
      with validateAndRepairScore_throws [of "value" rt k es ws] assms(1) show ?thesis by simp
    next
      case nt: False
      then have "\<not> throws value \<or> value = Some JNull" by auto
      from validateAndRepairScore_not_numeric [OF False this, of k es ws] assms
      show ?thesis
        using False key_name_critical [of k] key_name_final [of k]
        by (auto simp: criterion_score_def)
    qed
  qed
  then show "score sr = criterion_score rt k value"
    and "critical es' = (critical es \<or> \<not> numeric rt value)"
    and "list_ex (\<lambda>e. field e = ''final_score'') es' = list_ex (\<lambda>e. field e = ''final_score'') es"
    by simp_all
qed

lemma score_returns:
  assumes "\<not> throws value"
  shows "\<exists>sr es' ws'. validateAndRepairScore rt value k es ws = Inr (sr, es', ws')"
proof (cases "numeric rt value")
  case True
  then obtain x where x: "Number_of rt value = Inr x" by (auto elim: numericD)
  from validateAndRepairScore_numeric [OF True x, of k es ws] show ?thesis by blast
next
  case False
  from validateAndRepairScore_not_numeric [OF False, of k es ws] assms show ?thesis by blast
qed

lemma validateStringField_missing:
  assumes "value = None \<or> value = Some JNull"
  shows "validateStringField rt value fld n es ws =
           Inr (\<lparr>text_result = ''No feedback provided.'', text_wasRepaired = True\<rparr>,
                es @ [\<lparr>field = fld, message = ''Missing required field'', received = value,
                            expected = ''non-empty string''\<rparr>], ws)"
  using assms by (auto simp: validateStringField_def)

lemma validateStringField_present:
  assumes "value \<noteq> None" and "value \<noteq> Some JNull" and "String_of rt value = Inr s"
  shows "\<exists>tr ws'. validateStringField rt value fld n es ws = Inr (tr, es, ws @ ws')"
  using assms by (simp add: validateStringField_def Let_def)

lemma validateStringField_throws:
  assumes "value \<noteq> Some JNull" and "throws value"
  shows "validateStringField rt value fld n es ws = Inl TypeError"
proof -
  from assms(2) have "value \<noteq> None" by (auto simp: throws_def split: option.splits)
  moreover from assms(2) have "String_of rt value = Inl TypeError" by (simp add: String_of_throws)
  ultimately show ?thesis using assms(1) by (simp add: validateStringField_def)
qed

lemma text_step:
  assumes "validateStringField rt value fld n es ws = Inr (tr, es', ws')"
    and "fld \<notin> set critical_fields" and "fld \<noteq> ''final_score''"
  shows "critical es' = critical es"
    and "list_ex (\<lambda>e. field e = ''final_score'') es' = list_ex (\<lambda>e. field e = ''final_score'') es"
    and "\<exists>ws''. ws' = ws @ ws''"
proof -
  have "critical es' = critical es
      \<and> list_ex (\<lambda>e. field e = ''final_score'') es' = list_ex (\<lambda>e. field e = ''final_score'') es
      \<and> (\<exists>ws''. ws' = ws @ ws'')"
  proof (cases "value = None \<or> value = Some JNull")
    case True
    from validateStringField_missing [OF True, of rt fld n es ws] assms show ?thesis by auto
  next
    case False
    show ?thesis
    proof (cases "String_of rt value")
      case (Inl e)
      then have "throws value" by (simp add: String_of_throws)
      with validateStringField_throws [of "value" rt fld n es ws] False assms(1) show ?thesis by simp
    next
      case (Inr s)
      from validateStringField_present [OF _ _ Inr, of fld n es ws] False assms(1)
      show ?thesis by auto
    qed
  qed
  then show "critical es' = critical es"
    and "list_ex (\<lambda>e. field e = ''final_score'') es' = list_ex (\<lambda>e. field e = ''final_score'') es"
    and "\<exists>ws''. ws' = ws @ ws''"
    by simp_all
qed

lemma text_returns:
  assumes "\<not> throws value"
  shows "\<exists>tr es' ws'. validateStringField rt value fld n es ws = Inr (tr, es', ws')"
proof (cases "value = None \<or> value = Some JNull")
  case True
  from validateStringField_missing [OF True, of rt fld n es ws] show ?thesis by blast
next
  case False
  from assms obtain s where "String_of rt value = Inr s"
    using String_of_throws [of rt "value"] by (cases "String_of rt value") auto
  from validateStringField_present [OF _ _ this, of fld n es ws] False show ?thesis by auto
qed

lemma within_boundsE:
  assumes "within_bounds k x"
  obtains i where "x = Fin (of_int i)" and "0 \<le> i"
    and "i \<le> (case k of K_concept_accuracy \<Rightarrow> 4 | K_example_usage \<Rightarrow> 3 | K_edge_cases \<Rightarrow> 2
                 | K_clarity \<Rightarrow> 1 | K_final_score \<Rightarrow> 10)"
proof (cases x)
  case (Fin r)
  with assms have r: "of_int \<lfloor>r\<rfloor> = r" by (simp add: within_bounds_def)
  have "0 \<le> \<lfloor>r\<rfloor> \<and> \<lfloor>r\<rfloor> \<le> (case k of K_concept_accuracy \<Rightarrow> 4 | K_example_usage \<Rightarrow> 3
          | K_edge_cases \<Rightarrow> 2 | K_clarity \<Rightarrow> 1 | K_final_score \<Rightarrow> 10)"
    using assms Fin by (cases k) (simp_all add: within_bounds_def out_of_bounds_def not_less floor_le_iff le_floor_iff)
  with that [of "\<lfloor>r\<rfloor>"] Fin r show ?thesis by simp
qed (use assms in \<open>simp_all add: within_bounds_def\<close>)

lemma within_bounds_of_int:
  "within_bounds k (Fin (of_int i)) =
     (0 \<le> i \<and> i \<le> (case k of K_concept_accuracy \<Rightarrow> 4 | K_example_usage \<Rightarrow> 3 | K_edge_cases \<Rightarrow> 2
                 | K_clarity \<Rightarrow> 1 | K_final_score \<Rightarrow> 10))"
  by (cases k) (auto simp: within_bounds_def out_of_bounds_def not_less)

lemma repaired_within: "x \<noteq> NaN \<Longrightarrow> within_bounds k (repaired k x)"
  by (cases x; cases k) (auto simp: repaired_def clamp_to_def within_bounds_def out_of_bounds_def)

lemma criterion_score_within: "within_bounds k (criterion_score rt k value)"
proof (cases "numeric rt value")
  case True
  then obtain x where "Number_of rt value = Inr x" "x \<noteq> NaN" by (auto elim: numericD)
  with True show ?thesis by (simp add: criterion_score_def read_number_def repaired_within)
next
  case False
  then show ?thesis using within_bounds_of_int [of k 0] by (cases k) (simp_all add: criterion_score_def)
qed

lemma js_add_int:
  "\<bar>a + b\<bar> < 2 ^ 53 \<Longrightarrow> js_add (Fin (of_int a)) (Fin (of_int b)) = Fin (of_int (a + b))"
  using toDouble_of_int [of "a + b"] by simp

lemma sum_within:
  assumes "within_bounds K_concept_accuracy c" and "within_bounds K_example_usage e"
    and "within_bounds K_edge_cases g" and "within_bounds K_clarity l"
  shows "js_add (js_add (js_add c e) g) l
           = Fin (finite_value c + finite_value e + finite_value g + finite_value l)"
    and "within_bounds K_final_score (js_add (js_add (js_add c e) g) l)"
proof -
  from assms(1) obtain i1 where c: "c = Fin (of_int i1)" "0 \<le> i1" "i1 \<le> 4"
    by (auto elim!: within_boundsE)
  from assms(2) obtain i2 where e: "e = Fin (of_int i2)" "0 \<le> i2" "i2 \<le> 3"
    by (auto elim!: within_boundsE)
  from assms(3) obtain i3 where g: "g = Fin (of_int i3)" "0 \<le> i3" "i3 \<le> 2"
    by (auto elim!: within_boundsE)
  from assms(4) obtain i4 where l: "l = Fin (of_int i4)" "0 \<le> i4" "i4 \<le> 1"
    by (auto elim!: within_boundsE)
  have s1: "js_add c e = Fin (of_int (i1 + i2))"
    unfolding c e using c e by (intro js_add_int) simp
  have s2: "js_add (js_add c e) g = Fin (of_int (i1 + i2 + i3))"
    unfolding s1 g using c e g by (intro js_add_int) simp
  have s3: "js_add (js_add (js_add c e) g) l = Fin (of_int (i1 + i2 + i3 + i4))"
    unfolding s2 l using c e g l by (intro js_add_int) simp
  show "js_add (js_add (js_add c e) g) l
           = Fin (finite_value c + finite_value e + finite_value g + finite_value l)"
    unfolding s3 by (simp add: c e g l finite_value_def)
  show "within_bounds K_final_score (js_add (js_add (js_add c e) g) l)"
    unfolding s3 within_bounds_of_int using c e g l by simp
qed

lemma score_not_Inl:
  "\<not> throws value \<Longrightarrow> validateAndRepairScore rt value k es ws \<noteq> Inl e"
  using score_returns [of "value" rt k es ws] by auto

lemma text_not_Inl:
  "\<not> throws value \<Longrightarrow> validateStringField rt value fld n es ws \<noteq> Inl e"
  using text_returns [of "value" rt fld n es ws] by auto

lemma validate_shape:
  assumes p: "parseEvaluationResponse raw = parse_ok d" and t: "truthy d"
    and eq: "validateEvaluationResult rt raw rb = Inr r"
  obtains sr1 es1 ws1 sr2 es2 ws2 sr3 es3 ws3 sr4 es4 ws4 pf ws5 tr1 es5 ws6 tr2 es6 ws7 b where
    "validateAndRepairScore rt (get_property d ''concept_accuracy'') K_concept_accuracy [] []
       = Inr (sr1, es1, ws1)"
    "validateAndRepairScore rt (get_property d ''example_usage'') K_example_usage es1 ws1
       = Inr (sr2, es2, ws2)"
    "validateAndRepairScore rt (get_property d ''edge_cases'') K_edge_cases es2 ws2
       = Inr (sr3, es3, ws3)"
    "validateAndRepairScore rt (get_property d ''clarity'') K_clarity es3 ws3
       = Inr (sr4, es4, ws4)"
    "(if get_property d ''final_score'' \<noteq> None then Number_of rt (get_property d ''final_score'')
      else Inr (js_add (js_add (js_add (score sr1) (score sr2)) (score sr3)) (score sr4))) = Inr pf"
    "ws5 = (if get_property d ''final_score'' \<noteq> None \<and> \<not> isNaN pf
               \<and> pf \<noteq> js_add (js_add (js_add (score sr1) (score sr2)) (score sr3)) (score sr4)
            then ws4 @ [\<lparr>warning_field = ''final_score'',
                          warning_message = ''Provided final_score doesn'' @ [CHR 0x27]
                                              @ ''t match sum of individual scores'',
                          action = ''Corrected from '' @ Number_toString rt pf @ '' to ''
                            @ Number_toString rt
                                (js_add (js_add (js_add (score sr1) (score sr2)) (score sr3)) (score sr4))\<rparr>]
            else ws4)"
    "validateStringField rt (get_property d ''overall_feedback'') ''overall_feedback'' 1000 es4 ws5
       = Inr (tr1, es5, ws6)"
    "validateStringField rt (get_property d ''improvement_tips'') ''improvement_tips'' 1000 es5 ws6
       = Inr (tr2, es6, ws7)"
    "r = \<lparr>isValid = \<not> critical es6,
          data = Some \<lparr>concept_accuracy = score sr1, example_usage = score sr2,
                        edge_cases = score sr3, clarity = score sr4,
                        final_score = js_add (js_add (js_add (score sr1) (score sr2)) (score sr3)) (score sr4),
                        overall_feedback = text_result tr1, improvement_tips = text_result tr2\<rparr>,
          errors = es6, warnings = ws7, wasRepaired = b\<rparr>"
  using eq
  by (simp add: validateEvaluationResult_def p parse_ok_def t Let_def critical_def [symmetric]
           split: sum.splits prod.splits) blast

lemma validate_returns:
  assumes p: "parseEvaluationResponse raw = parse_ok d" and t: "truthy d"
    and "\<not> throws (get_property d ''concept_accuracy'')"
    and "\<not> throws (get_property d ''example_usage'')"
    and "\<not> throws (get_property d ''edge_cases'')"
    and "\<not> throws (get_property d ''clarity'')"
    and "\<not> throws (get_property d ''final_score'')"
    and "\<not> throws (get_property d ''overall_feedback'')"
    and "\<not> throws (get_property d ''improvement_tips'')"
  shows "\<exists>r. validateEvaluationResult rt raw rb = Inr r"
  using assms(3-)
  by (simp add: validateEvaluationResult_def p parse_ok_def t Let_def score_not_Inl text_not_Inl
        Number_of_throws split: sum.splits prod.splits)

lemma validate_post:
  assumes p: "parseEvaluationResponse raw = parse_ok d" and t: "truthy d"
    and eq: "validateEvaluationResult rt raw rb = Inr r"
  shows "isValid r = (numeric rt (get_property d ''concept_accuracy'')
                     \<and> numeric rt (get_property d ''example_usage'')
                     \<and> numeric rt (get_property d ''edge_cases'')
                     \<and> numeric rt (get_property d ''clarity''))"
    and "\<exists>fb tips. data r = Some
           \<lparr>concept_accuracy = criterion_score rt K_concept_accuracy (get_property d ''concept_accuracy''),
            example_usage = criterion_score rt K_example_usage (get_property d ''example_usage''),
            edge_cases = criterion_score rt K_edge_cases (get_property d ''edge_cases''),
            clarity = criterion_score rt K_clarity (get_property d ''clarity''),
            final_score =
              js_add (js_add (js_add
                (criterion_score rt K_concept_accuracy (get_property d ''concept_accuracy''))
                (criterion_score rt K_example_usage (get_property d ''example_usage'')))
                (criterion_score rt K_edge_cases (get_property d ''edge_cases'')))
                (criterion_score rt K_clarity (get_property d ''clarity'')),
            overall_feedback = fb, improvement_tips = tips\<rparr>"
    and "\<not> list_ex (\<lambda>e. field e = ''final_score'') (errors r)"
proof -
  let ?c1 = "criterion_score rt K_concept_accuracy (get_property d ''concept_accuracy'')"
  let ?c2 = "criterion_score rt K_example_usage (get_property d ''example_usage'')"
  let ?c3 = "criterion_score rt K_edge_cases (get_property d ''edge_cases'')"
  let ?c4 = "criterion_score rt K_clarity (get_property d ''clarity'')"
  have "isValid r = (numeric rt (get_property d ''concept_accuracy'')
                     \<and> numeric rt (get_property d ''example_usage'')
                     \<and> numeric rt (get_property d ''edge_cases'')
                     \<and> numeric rt (get_property d ''clarity''))
      \<and> (\<exists>fb tips. data r = Some
           \<lparr>concept_accuracy = ?c1, example_usage = ?c2, edge_cases = ?c3, clarity = ?c4,
            final_score = js_add (js_add (js_add ?c1 ?c2) ?c3) ?c4,
            overall_feedback = fb, improvement_tips = tips\<rparr>)
      \<and> \<not> list_ex (\<lambda>e. field e = ''final_score'') (errors r)"
  proof (rule validate_shape [OF p t eq])
    fix sr1 es1 ws1 sr2 es2 ws2 sr3 es3 ws3 sr4 es4 ws4 pf ws5 tr1 es5 ws6 tr2 es6 ws7 b
    assume s1: "validateAndRepairScore rt (get_property d ''concept_accuracy'') K_concept_accuracy [] []
       = Inr (sr1, es1, ws1)" and
    s2: "validateAndRepairScore rt (get_property d ''example_usage'') K_example_usage es1 ws1
       = Inr (sr2, es2, ws2)" and
    s3: "validateAndRepairScore rt (get_property d ''edge_cases'') K_edge_cases es2 ws2
       = Inr (sr3, es3, ws3)" and
    s4: "validateAndRepairScore rt (get_property d ''clarity'') K_clarity es3 ws3
       = Inr (sr4, es4, ws4)" and
    t1: "validateStringField rt (get_property d ''overall_feedback'') ''overall_feedback'' 1000 es4 ws5
       = Inr (tr1, es5, ws6)" and
    t2: "validateStringField rt (get_property d ''improvement_tips'') ''improvement_tips'' 1000 es5 ws6
       = Inr (tr2, es6, ws7)" and
    r: "r = \<lparr>isValid = \<not> critical es6,
          data = Some \<lparr>concept_accuracy = score sr1, example_usage = score sr2,
                        edge_cases = score sr3, clarity = score sr4,
                        final_score = js_add (js_add (js_add (score sr1) (score sr2)) (score sr3)) (score sr4),
                        overall_feedback = text_result tr1, improvement_tips = text_result tr2\<rparr>,
          errors = es6, warnings = ws7, wasRepaired = b\<rparr>"
    note a1 = score_step [OF s1] and a2 = score_step [OF s2] and a3 = score_step [OF s3]
      and a4 = score_step [OF s4]
    have nc: "''overall_feedback'' \<notin> set critical_fields"
      "''improvement_tips'' \<notin> set critical_fields"
      by (simp_all add: critical_fields_def)
    note b1 = text_step [OF t1 nc(1)] and b2 = text_step [OF t2 nc(2)]
    show ?thesis
      unfolding r
      using a1(1) a2(1) a3(1) a4(1) a1(2) a2(2) a3(2) a4(2) a1(3) a2(3) a3(3) a4(3) b1(1,2) b2(1,2)
      by simp
  qed
  then show "isValid r = (numeric rt (get_property d ''concept_accuracy'')
                     \<and> numeric rt (get_property d ''example_usage'')
                     \<and> numeric rt (get_property d ''edge_cases'')
                     \<and> numeric rt (get_property d ''clarity''))"
    and "\<exists>fb tips. data r = Some
           \<lparr>concept_accuracy = criterion_score rt K_concept_accuracy (get_property d ''concept_accuracy''),
            example_usage = criterion_score rt K_example_usage (get_property d ''example_usage''),
            edge_cases = criterion_score rt K_edge_cases (get_property d ''edge_cases''),
            clarity = criterion_score rt K_clarity (get_property d ''clarity''),
            final_score =
              js_add (js_add (js_add
                (criterion_score rt K_concept_accuracy (get_property d ''concept_accuracy''))
                (criterion_score rt K_example_usage (get_property d ''example_usage'')))
                (criterion_score rt K_edge_cases (get_property d ''edge_cases'')))
                (criterion_score rt K_clarity (get_property d ''clarity'')),
            overall_feedback = fb, improvement_tips = tips\<rparr>"
    and "\<not> list_ex (\<lambda>e. field e = ''final_score'') (errors r)"
    by simp_all
qed

lemma parse_cases:
  "(\<exists>d. parseEvaluationResponse raw = parse_ok d)
   \<or> parseEvaluationResponse raw =
        \<lparr>parse_success = False, parse_data = None,
         parse_error = Some ''Failed to parse response as JSON after all recovery attempts''\<rparr>"
  by (auto simp: parseEvaluationResponse_def split: option.splits)

lemma validate_no_data:
  assumes "\<not> (\<exists>d. parseEvaluationResponse raw = parse_ok d \<and> truthy d)"
  shows "\<exists>m. validateEvaluationResult rt raw rb =
           Inr \<lparr>isValid = False, data = None,
                errors = [\<lparr>field = ''response'', message = m,
                            received = Some (JStr (take 200 raw)), expected = ''Valid JSON object''\<rparr>],
                warnings = [], wasRepaired = False\<rparr>"
  using assms parse_cases [of raw]
  by (auto simp: validateEvaluationResult_def parse_ok_def Let_def)

lemma validate_data_well_formed:
  assumes eq: "validateEvaluationResult rt raw rb = Inr r" and d: "data r = Some res"
  shows "well_formed res"
proof (cases "\<exists>d. parseEvaluationResponse raw = parse_ok d \<and> truthy d")
  case False
  from validate_no_data [OF False, of rt rb] eq d show ?thesis by auto
next
  case True
  then obtain j where p: "parseEvaluationResponse raw = parse_ok j" and t: "truthy j" by blast
  let ?c1 = "criterion_score rt K_concept_accuracy (get_property j ''concept_accuracy'')"
  let ?c2 = "criterion_score rt K_example_usage (get_property j ''example_usage'')"
  let ?c3 = "criterion_score rt K_edge_cases (get_property j ''edge_cases'')"
  let ?c4 = "criterion_score rt K_clarity (get_property j ''clarity'')"
  from validate_post(2) [OF p t eq] d obtain fb tips where res:
    "res = \<lparr>concept_accuracy = ?c1, example_usage = ?c2, edge_cases = ?c3, clarity = ?c4,
            final_score = js_add (js_add (js_add ?c1 ?c2) ?c3) ?c4,
            overall_feedback = fb, improvement_tips = tips\<rparr>"
    by auto
  note w = criterion_score_within [of K_concept_accuracy rt "get_property j ''concept_accuracy''"]
    criterion_score_within [of K_example_usage rt "get_property j ''example_usage''"]
    criterion_score_within [of K_edge_cases rt "get_property j ''edge_cases''"]
    criterion_score_within [of K_clarity rt "get_property j ''clarity''"]
  from sum_within [OF w] w show ?thesis
    unfolding res well_formed_def by simp
qed

lemma validate_warns_final_score:
  assumes p: "parseEvaluationResponse raw = parse_ok d" and t: "truthy d"
    and eq: "validateEvaluationResult rt raw rb = Inr r"
    and res: "data r = Some res"
    and f: "Number_of rt (get_property d ''final_score'') = Inr y"
    and ne: "y \<noteq> NaN" "y \<noteq> final_score res"
  shows "list_ex (\<lambda>w. warning_field w = ''final_score'') (warnings r)"
proof (rule validate_shape [OF p t eq])
  fix sr1 es1 ws1 sr2 es2 ws2 sr3 es3 ws3 sr4 es4 ws4 pf ws5 tr1 es5 ws6 tr2 es6 ws7 b
  let ?calc = "js_add (js_add (js_add (score sr1) (score sr2)) (score sr3)) (score sr4)"
  assume pf: "(if get_property d ''final_score'' \<noteq> None then Number_of rt (get_property d ''final_score'')
      else Inr ?calc) = Inr pf"
    and ws5: "ws5 = (if get_property d ''final_score'' \<noteq> None \<and> \<not> isNaN pf \<and> pf \<noteq> ?calc
            then ws4 @ [\<lparr>warning_field = ''final_score'',
                          warning_message = ''Provided final_score doesn'' @ [CHR 0x27]
                                              @ ''t match sum of individual scores'',
                          action = ''Corrected from '' @ Number_toString rt pf @ '' to ''
                            @ Number_toString rt ?calc\<rparr>]
            else ws4)"
    and t1: "validateStringField rt (get_property d ''overall_feedback'') ''overall_feedback'' 1000 es4 ws5
       = Inr (tr1, es5, ws6)"
    and t2: "validateStringField rt (get_property d ''improvement_tips'') ''improvement_tips'' 1000 es5 ws6
       = Inr (tr2, es6, ws7)"
    and r: "r = \<lparr>isValid = \<not> critical es6,
          data = Some \<lparr>concept_accuracy = score sr1, example_usage = score sr2,
                        edge_cases = score sr3, clarity = score sr4,
                        final_score = ?calc,
                        overall_feedback = text_result tr1, improvement_tips = text_result tr2\<rparr>,
          errors = es6, warnings = ws7, wasRepaired = b\<rparr>"
  from f ne(1) have some: "get_property d ''final_score'' \<noteq> None"
    by (auto simp: Number_of_def split: option.splits)
  with pf f have "pf = y" by simp
  moreover from r res have "final_score res = ?calc" by auto
  ultimately have "list_ex (\<lambda>w. warning_field w = ''final_score'') ws5"
    using some ne ws5 by (simp add: isNaN_def)
  moreover have nc: "''overall_feedback'' \<notin> set critical_fields"
    "''improvement_tips'' \<notin> set critical_fields"
    by (simp_all add: critical_fields_def)
  from text_step(3) [OF t1 nc(1)] text_step(3) [OF t2 nc(2)]
  obtain a c where "ws6 = ws5 @ a" "ws7 = ws6 @ c" by auto
  ultimately show ?thesis unfolding r by (auto simp: list_ex_iff)
qed

lemma criterion_score_numeric:
  "numeric rt value \<Longrightarrow> criterion_score rt k value = repaired k (read_number rt value)"
  by (simp add: criterion_score_def)

text \<open>
  Claim C1, as amended. Let the raw response parse to a JSON object whose four criterion
  fields are numeric, and let the conversion of its \<open>final_score\<close>, \<open>overall_feedback\<close>
  and \<open>improvement_tips\<close> values not throw. Then \<open>validateEvaluationResult\<close> returns a
  valid result whose criterion scores are the repaired numbers and whose \<open>final_score\<close> is
  their sum, whatever \<open>final_score\<close> the object holds: no error names \<open>final_score\<close>, and a
  number there that differs from the sum leaves a warning.
\<close>

theorem validateEvaluationResult_numeric_criteria:
  assumes "parseEvaluationResponse raw = parse_ok (JObj kvs)"
    and "numeric rt (get_property (JObj kvs) ''concept_accuracy'')"
    and "numeric rt (get_property (JObj kvs) ''example_usage'')"
    and "numeric rt (get_property (JObj kvs) ''edge_cases'')"
    and "numeric rt (get_property (JObj kvs) ''clarity'')"
    and "\<not> throws (get_property (JObj kvs) ''final_score'')"
    and "\<not> throws (get_property (JObj kvs) ''overall_feedback'')"
    and "\<not> throws (get_property (JObj kvs) ''improvement_tips'')"
  shows "\<exists>r res. validateEvaluationResult rt raw rb = Inr r \<and> isValid r \<and> data r = Some res
      \<and> concept_accuracy res
          = repaired K_concept_accuracy (read_number rt (get_property (JObj kvs) ''concept_accuracy''))
      \<and> example_usage res
          = repaired K_example_usage (read_number rt (get_property (JObj kvs) ''example_usage''))
      \<and> edge_cases res
          = repaired K_edge_cases (read_number rt (get_property (JObj kvs) ''edge_cases''))
      \<and> clarity res = repaired K_clarity (read_number rt (get_property (JObj kvs) ''clarity''))
      \<and> final_score res
          = Fin (finite_value (concept_accuracy res) + finite_value (example_usage res)
                 + finite_value (edge_cases res) + finite_value (clarity res))
      \<and> \<not> list_ex (\<lambda>e. field e = ''final_score'') (errors r)
      \<and> (\<forall>y. Number_of rt (get_property (JObj kvs) ''final_score'') = Inr y \<and> y \<noteq> NaN
               \<and> y \<noteq> final_score res
             \<longrightarrow> list_ex (\<lambda>w. warning_field w = ''final_score'') (warnings r))"
proof -
  have t: "truthy (JObj kvs)" by (simp add: truthy_def)
  note nt = assms(2-5) [THEN numeric_not_throws]
  from validate_returns [OF assms(1) t nt assms(6-8), of rt rb]
  obtain r where eq: "validateEvaluationResult rt raw rb = Inr r" by blast
  note post = validate_post [OF assms(1) t eq]
  from post(2) obtain res where res: "data r = Some res"
    and c1: "concept_accuracy res
          = criterion_score rt K_concept_accuracy (get_property (JObj kvs) ''concept_accuracy'')"
    and c2: "example_usage res
          = criterion_score rt K_example_usage (get_property (JObj kvs) ''example_usage'')"
    and c3: "edge_cases res = criterion_score rt K_edge_cases (get_property (JObj kvs) ''edge_cases'')"
    and c4: "clarity res = criterion_score rt K_clarity (get_property (JObj kvs) ''clarity'')"
    by auto
  from validate_data_well_formed [OF eq res]
  have sum: "final_score res
          = Fin (finite_value (concept_accuracy res) + finite_value (example_usage res)
                 + finite_value (edge_cases res) + finite_value (clarity res))"
    by (simp add: well_formed_def)
  have warn: "\<forall>y. Number_of rt (get_property (JObj kvs) ''final_score'') = Inr y \<and> y \<noteq> NaN
               \<and> y \<noteq> final_score res
             \<longrightarrow> list_ex (\<lambda>w. warning_field w = ''final_score'') (warnings r)"
    using validate_warns_final_score [OF assms(1) t eq res] by blast
  from post(1) assms(2-5) have "isValid r" by simp
  with eq res c1 c2 c3 c4 sum post(3) warn assms(2-5) show ?thesis
    by (simp add: criterion_score_numeric)
qed

section \<open>Properties of the recovery strategy\<close>

text \<open>
  Claim C6. For every validation result that is not valid, whatever its errors are (a
  failed parse or field errors), and every retry count of at least 2, the selector's own
  \<open>maxRetries\<close>, \<open>determineRecoveryStrategy\<close> answers \<open>USE_DEFAULT_SCORES\<close>.
\<close>

theorem determineRecoveryStrategy_exhausted:
  assumes "\<not> isValid validationResult" and "2 \<le> retryCount"
  shows "determineRecoveryStrategy validationResult retryCount = USE_DEFAULT_SCORES"
  using assms by (simp add: determineRecoveryStrategy_def)

theorem determineRecoveryStrategy_exhausted_witness:
  "\<not> isValid \<lparr>isValid = False, data = None,
       errors = [\<lparr>field = ''response'', message = ''Invalid JSON'',
                   received = Some (JStr ''oops''), expected = ''Valid JSON object''\<rparr>],
       warnings = [], wasRepaired = False\<rparr>
   \<and> (2::int) \<le> 2
   \<and> determineRecoveryStrategy \<lparr>isValid = False, data = None,
       errors = [\<lparr>field = ''response'', message = ''Invalid JSON'',
                   received = Some (JStr ''oops''), expected = ''Valid JSON object''\<rparr>],
       warnings = [], wasRepaired = False\<rparr> 2 = USE_DEFAULT_SCORES"
  using determineRecoveryStrategy_exhausted
    [of "\<lparr>isValid = False, data = None,
       errors = [\<lparr>field = ''response'', message = ''Invalid JSON'',
                   received = Some (JStr ''oops''), expected = ''Valid JSON object''\<rparr>],
       warnings = [], wasRepaired = False\<rparr>" 2]
  by simp

end
